theory Spec2Isabelle
  imports Main
begin

section \<open>JavaScript values\<close>

text \<open>
  The helper module of the command bridge is untyped JavaScript, so option values,
  configuration fields and the tokens of an argument list are JavaScript values.
  Numbers are the integer-valued ones that JavaScript prints in plain decimal notation
  (\<open>NaN\<close>, the infinities, fractions, the negative zero and magnitudes from \<open>1e21\<close> on
  are outside the model). The only functions are the members that a plain object
  inherits from \<open>Object.prototype\<close>, held by name; symbols do not occur.
  An object is the list of its own enumerable string-keyed properties, in the order in
  which \<open>Object.keys\<close> and \<open>Object.entries\<close> enumerate them.
\<close>

datatype jsval =
    JUndefined
  | JNull
  | JBool bool
  | JNum int
  | JStr string
  | JArr "jsval list"
  | JObj "(string \<times> jsval) list"
  | JFun string

text \<open>Truthiness, as tested by \<open>if (v)\<close>, \<open>v ? a : b\<close> and \<open>v || d\<close>.\<close>

fun truthy :: "jsval \<Rightarrow> bool" where
  "truthy JUndefined = False"
| "truthy JNull = False"
| "truthy (JBool b) = b"
| "truthy (JNum n) = (n \<noteq> 0)"
| "truthy (JStr s) = (s \<noteq> [])"
| "truthy (JArr xs) = True"
| "truthy (JObj ps) = True"
| "truthy (JFun f) = True"

text \<open>Decimal digits of a natural number, for \<open>String(n)\<close> and array indices.\<close>

fun nat_to_string :: "nat \<Rightarrow> string" where
  "nat_to_string n =
     (if n < 10 then [''0123456789'' ! n]
      else nat_to_string (n div 10) @ [''0123456789'' ! (n mod 10)])"

definition int_to_string :: "int \<Rightarrow> string" where
  "int_to_string i = (if i < 0 then CHR ''-'' # nat_to_string (nat (- i)) else nat_to_string (nat i))"

text \<open>\<open>Array.prototype.join\<close> on strings already converted.\<close>

fun join :: "string \<Rightarrow> string list \<Rightarrow> string" where
  "join sep [] = []"
| "join sep [s] = s"
| "join sep (s # t # ss) = s @ sep @ join sep (t # ss)"

text \<open>
  \<open>String(v)\<close> and the conversion inside a template literal: an array is its elements
  joined by commas, where \<open>undefined\<close> and \<open>null\<close> elements give the empty string; a
  plain object is \<open>[object Object]\<close>, a built-in function is the text that names it.
\<close>

fun js_String :: "jsval \<Rightarrow> string" where
  "js_String JUndefined = ''undefined''"
| "js_String JNull = ''null''"
| "js_String (JBool b) = (if b then ''true'' else ''false'')"
| "js_String (JNum n) = int_to_string n"
| "js_String (JStr s) = s"
| "js_String (JArr xs) =
     join '','' (map (\<lambda>x. if x = JUndefined \<or> x = JNull then [] else js_String x) xs)"
| "js_String (JObj ps) = ''[object Object]''"
| "js_String (JFun f) = ''function '' @ f @ ''() { [native code] }''"

text \<open>
  \<open>xs.concat(a1, ..., an)\<close> on an array: an argument that is itself an array is spliced
  in element by element (one level), any other argument is appended as it is.
\<close>

definition array_concat :: "jsval list \<Rightarrow> jsval list \<Rightarrow> jsval list" where
  "array_concat xs args = xs @ concat (map (\<lambda>a. case a of JArr ys \<Rightarrow> ys | _ \<Rightarrow> [a]) args)"

text \<open>
  The read of a property that no object inherits, such as the fields that \<open>execute\<close>
  reads from its configuration: the own property, and \<open>undefined\<close> for a missing key.
\<close>

definition get_prop :: "(string \<rightharpoonup> jsval) \<Rightarrow> string \<Rightarrow> jsval" where
  "get_prop obj key = (case obj key of None \<Rightarrow> JUndefined | Some v \<Rightarrow> v)"

text \<open>
  The members that every plain object inherits from \<open>Object.prototype\<close>: eleven
  functions, and the accessor \<open>__proto__\<close>, which reads the prototype object itself.
\<close>

definition Object_prototype :: "string \<rightharpoonup> jsval" where
  "Object_prototype =
     map_of
       [(''constructor'', JFun ''Object''),
        (''__defineGetter__'', JFun ''__defineGetter__''),
        (''__defineSetter__'', JFun ''__defineSetter__''),
        (''hasOwnProperty'', JFun ''hasOwnProperty''),
        (''__lookupGetter__'', JFun ''__lookupGetter__''),
        (''__lookupSetter__'', JFun ''__lookupSetter__''),
        (''isPrototypeOf'', JFun ''isPrototypeOf''),
        (''propertyIsEnumerable'', JFun ''propertyIsEnumerable''),
        (''toString'', JFun ''toString''),
        (''valueOf'', JFun ''valueOf''),
        (''toLocaleString'', JFun ''toLocaleString''),
        (''__proto__'', JObj [])]"

text \<open>
  A property read \<open>obj[key]\<close> on a plain object given by its own properties: an own
  property wins, then the member inherited from \<open>Object.prototype\<close>, and a key found
  in neither reads \<open>undefined\<close>.
\<close>

definition js_get :: "(string \<rightharpoonup> jsval) \<Rightarrow> string \<Rightarrow> jsval" where
  "js_get obj key =
     (case obj key of
        Some v \<Rightarrow> v
      | None \<Rightarrow> (case Object_prototype key of Some member \<Rightarrow> member | None \<Rightarrow> JUndefined))"

definition js_of_opt :: "string option \<Rightarrow> jsval" where
  "js_of_opt s = (case s of None \<Rightarrow> JUndefined | Some t \<Rightarrow> JStr t)"

section \<open>Errors\<close>

text \<open>
  The module throws plain \<open>Error\<close> objects distinguished only by their message;
  \<open>TypeError\<close> is what the engine raises on a property read of \<open>undefined\<close> or a call
  of a non-function.
\<close>

datatype error = Error string | TypeError string

section \<open>Serialising options\<close>

text \<open>
  The schema of one option: its flag \<open>param\<close>, its \<open>type\<close> and its inverted flag
  \<open>invertedParam\<close>, where \<open>None\<close> is a property that is not declared. The schema of a
  command lists the options under their names, in the order in which they are defined.
  The options given by the caller are a plain object, held by its own properties.
\<close>

record OptionSchema =
  param :: "string option"
  type :: string
  invertedParam :: "string option"

type_synonym OptionsSchema = "(string \<times> OptionSchema) list"

text \<open>
  The array index that a property name denotes, if any: the decimal numeral without
  leading zeros of a number below \<open>2^32 - 1\<close>.
\<close>

definition digit_value :: "char \<rightharpoonup> nat" where
  "digit_value =
     map_of [(CHR ''0'', 0), (CHR ''1'', 1), (CHR ''2'', 2), (CHR ''3'', 3), (CHR ''4'', 4),
             (CHR ''5'', 5), (CHR ''6'', 6), (CHR ''7'', 7), (CHR ''8'', 8), (CHR ''9'', 9)]"

fun decimal_value :: "string \<Rightarrow> nat \<Rightarrow> nat option" where
  "decimal_value [] n = Some n"
| "decimal_value (c # cs) n =
     (case digit_value c of None \<Rightarrow> None | Some d \<Rightarrow> decimal_value cs (10 * n + d))"

definition array_index :: "string \<Rightarrow> nat option" where
  "array_index name =
     (case name of
        [] \<Rightarrow> None
      | c # cs \<Rightarrow>
          if c = CHR ''0'' \<and> cs \<noteq> [] then None
          else (case decimal_value name 0 of
                  None \<Rightarrow> None
                | Some n \<Rightarrow> if n < 4294967295 then Some n else None))"

text \<open>
  The order in which the own properties of an object are enumerated: the properties
  whose names are array indices first, by ascending index, then the other properties
  in the order of their definition. \<open>Object.keys\<close> gives the names in that order.
\<close>

definition enumeration_order :: "(string \<times> 'a) list \<Rightarrow> (string \<times> 'a) list" where
  "enumeration_order props =
     sort_key (\<lambda>p. case array_index (fst p) of Some n \<Rightarrow> n | None \<Rightarrow> 0)
       (filter (\<lambda>p. array_index (fst p) \<noteq> None) props)
     @ filter (\<lambda>p. array_index (fst p) = None) props"

definition Object_keys :: "(string \<times> 'a) list \<Rightarrow> string list" where
  "Object_keys props = map fst (enumeration_order props)"

text \<open>
  \<open>Array.prototype.reduce\<close> with a callback that may throw: the first exception ends
  the iteration.
\<close>

fun reduce :: "('b \<Rightarrow> 'a \<Rightarrow> error + 'b) \<Rightarrow> 'a list \<Rightarrow> 'b \<Rightarrow> error + 'b" where
  "reduce f [] acc = Inr acc"
| "reduce f (x # xs) acc = (case f acc x of Inl e \<Rightarrow> Inl e | Inr acc' \<Rightarrow> reduce f xs acc')"

text \<open>The callback of \<open>serializeOptions\<close>: one schema key applied to the accumulated tokens.\<close>

definition serializeOption ::
  "OptionsSchema \<Rightarrow> (string \<rightharpoonup> jsval) \<Rightarrow> jsval list \<Rightarrow> string \<Rightarrow> error + jsval list" where
  "serializeOption schema options newOptions option =
     (let paramValue = js_get options option in
      if paramValue = JUndefined \<or> paramValue = JNull then Inr newOptions
      else
        (case map_of schema option of
           None \<Rightarrow> Inl (TypeError ''Cannot read properties of undefined'')
         | Some entry \<Rightarrow>
             (let paramType = type entry; paramName = js_of_opt (param entry) in
              if paramType = ''array'' then
                (case paramValue of
                   JArr vs \<Rightarrow>
                     Inr (array_concat newOptions
                       [JArr (foldl (\<lambda>acc v. array_concat acc [JArr [paramName, JStr (js_String v)]]) [] vs)])
                 | _ \<Rightarrow> Inl (Error (option @ '' should be an array'')))
              else if paramType = ''boolean'' then
                (case paramValue of
                   JBool b \<Rightarrow>
                     (let invertedParamName = js_of_opt (invertedParam entry) in
                      if b \<and> paramName \<noteq> JUndefined then Inr (array_concat newOptions [JArr [paramName]])
                      else if \<not> b \<and> invertedParamName \<noteq> JUndefined
                        then Inr (array_concat newOptions [JArr [invertedParamName]])
                      else Inr newOptions)
                 | _ \<Rightarrow> Inl (Error (option @ '' should be a bool'')))
              else Inr (array_concat newOptions [paramName, paramValue]))))"

definition serializeOptions :: "OptionsSchema \<Rightarrow> (string \<rightharpoonup> jsval) \<Rightarrow> error + jsval list" where
  "serializeOptions schema options = reduce (serializeOption schema options) (Object_keys schema) []"

text \<open>
  \<open>prepareCommand\<close>: \<open>command.concat(serializeOptions(schema || {}, options || {}))\<close>.
  The member \<open>concat\<close> is read first (a \<open>TypeError\<close> on \<open>undefined\<close> and \<open>null\<close>), then
  the argument is evaluated, then the method is called: \<open>Array.prototype.concat\<close> on an
  array, \<open>String.prototype.concat\<close> (which converts its argument to a string and appends
  it) on a string; the other values have no such method.
\<close>

definition prepareCommand ::
  "jsval \<Rightarrow> OptionsSchema option \<Rightarrow> (string \<rightharpoonup> jsval) option \<Rightarrow> error + jsval" where
  "prepareCommand command schema options =
     (if command = JUndefined \<or> command = JNull
        then Inl (TypeError ''Cannot read properties of undefined or null'')
      else
        (case serializeOptions (case schema of None \<Rightarrow> [] | Some s \<Rightarrow> s)
                               (case options of None \<Rightarrow> Map.empty | Some opts \<Rightarrow> opts) of
           Inl e \<Rightarrow> Inl e
         | Inr tokens \<Rightarrow>
             (case command of
                JArr cs \<Rightarrow> Inr (JArr (array_concat cs [JArr tokens]))
              | JStr s \<Rightarrow> Inr (JStr (s @ js_String (JArr tokens)))
              | _ \<Rightarrow> Inl (TypeError ''command.concat is not a function''))))"

subsection \<open>The reference serializer of the specification\<close>

text \<open>
  The serializer as the specification words it: the entries are visited in order and
  every entry contributes a list of tokens, or the whole serialization fails with a
  schema validation error that names the offending option. Three things are
  parameters, so that the specification's wording and the amended one can both be
  compared with \<open>serializeOptions\<close>: the order of the entries (the list given), the
  value that an option name has, and the contribution of an entry whose declared type
  is neither \<open>array\<close> nor \<open>boolean\<close>.
\<close>

datatype spec_error = SchemaValidation string

text \<open>The specification's wording: the pair of the flag and the value, the value verbatim.\<close>

definition spec_other_verbatim :: "jsval \<Rightarrow> jsval \<Rightarrow> jsval list" where
  "spec_other_verbatim flag v = [flag, v]"

text \<open>
  The amended wording: the flag followed by the value verbatim, except that a value
  that is an array contributes its elements one by one.
\<close>

definition spec_other_spliced :: "jsval \<Rightarrow> jsval \<Rightarrow> jsval list" where
  "spec_other_spliced flag v = flag # (case v of JArr vs \<Rightarrow> vs | _ \<Rightarrow> [v])"

definition spec_contribution ::
  "(jsval \<Rightarrow> jsval \<Rightarrow> jsval list) \<Rightarrow> (string \<Rightarrow> jsval) \<Rightarrow> string \<times> OptionSchema
     \<Rightarrow> spec_error + jsval list" where
  "spec_contribution other value_of entry =
     (let name = fst entry; decl = snd entry; flag = js_of_opt (param decl); v = value_of name in
      if v = JUndefined \<or> v = JNull then Inr []
      else if type decl = ''array'' then
        (case v of
           JArr elems \<Rightarrow> Inr (concat (map (\<lambda>e. [flag, JStr (js_String e)]) elems))
         | _ \<Rightarrow> Inl (SchemaValidation name))
      else if type decl = ''boolean'' then
        (case v of
           JBool True \<Rightarrow> Inr (case param decl of Some f \<Rightarrow> [JStr f] | None \<Rightarrow> [])
         | JBool False \<Rightarrow> Inr (case invertedParam decl of Some f \<Rightarrow> [JStr f] | None \<Rightarrow> [])
         | _ \<Rightarrow> Inl (SchemaValidation name))
      else Inr (other flag v))"

fun spec_serializeOptions ::
  "(jsval \<Rightarrow> jsval \<Rightarrow> jsval list) \<Rightarrow> (string \<Rightarrow> jsval) \<Rightarrow> OptionsSchema
     \<Rightarrow> spec_error + jsval list" where
  "spec_serializeOptions other value_of [] = Inr []"
| "spec_serializeOptions other value_of (entry # rest) =
     (case spec_contribution other value_of entry of
        Inl e \<Rightarrow> Inl e
      | Inr tokens \<Rightarrow>
          (case spec_serializeOptions other value_of rest of
             Inl e \<Rightarrow> Inl e
           | Inr others \<Rightarrow> Inr (tokens @ others)))"

text \<open>
  The reference serializer of the specification: entries in their defined order; the
  value of an option is the one the options hold for its name, absent for a name they
  do not hold; the flag and the value for the other types.
\<close>

definition spec_reference :: "OptionsSchema \<Rightarrow> (string \<rightharpoonup> jsval) \<Rightarrow> spec_error + jsval list" where
  "spec_reference schema options =
     spec_serializeOptions spec_other_verbatim (get_prop options) schema"

text \<open>
  The amended reference serializer: entries in enumeration order (array-index names
  first); the value of an option is what the property read \<open>options[name]\<close> finds, which
  for a name that the options do not hold is the member inherited from
  \<open>Object.prototype\<close>, when there is one; array values spliced for the other types.
\<close>

definition spec_reference_amended ::
  "OptionsSchema \<Rightarrow> (string \<rightharpoonup> jsval) \<Rightarrow> spec_error + jsval list" where
  "spec_reference_amended schema options =
     spec_serializeOptions spec_other_spliced (js_get options) (enumeration_order schema)"

text \<open>
  A thrown error is the schema validation error naming an option when its message is
  that option's name followed by one of the two complaints of \<open>serializeOptions\<close>.
\<close>

definition names_option :: "error \<Rightarrow> spec_error \<Rightarrow> bool" where
  "names_option e s =
     (case s of SchemaValidation name \<Rightarrow>
        e = Error (name @ '' should be an array'') \<or> e = Error (name @ '' should be a bool''))"

text \<open>The outcome of the code agrees with an outcome of the reference serializer.\<close>

definition agrees :: "error + jsval list \<Rightarrow> spec_error + jsval list \<Rightarrow> bool" where
  "agrees r s =
     (case r of
        Inl e \<Rightarrow> (case s of Inl n \<Rightarrow> names_option e n | Inr _ \<Rightarrow> False)
      | Inr tokens \<Rightarrow> (case s of Inl _ \<Rightarrow> False | Inr tokens' \<Rightarrow> tokens = tokens'))"

section \<open>Locating the binary\<close>

record BinaryDistribution =
  packageName :: string
  subpath :: string

definition BINARY_DISTRIBUTIONS :: "BinaryDistribution list" where
  "BINARY_DISTRIBUTIONS =
     [\<lparr>packageName = ''@gsoc2/cli-darwin'', subpath = ''bin/gsoc2-cli''\<rparr>,
      \<lparr>packageName = ''@gsoc2/cli-linux-x64'', subpath = ''bin/gsoc2-cli''\<rparr>,
      \<lparr>packageName = ''@gsoc2/cli-linux-i686'', subpath = ''bin/gsoc2-cli''\<rparr>,
      \<lparr>packageName = ''@gsoc2/cli-linux-arm64'', subpath = ''bin/gsoc2-cli''\<rparr>,
      \<lparr>packageName = ''@gsoc2/cli-linux-arm'', subpath = ''bin/gsoc2-cli''\<rparr>,
      \<lparr>packageName = ''@gsoc2/cli-win32-x64'', subpath = ''bin/gsoc2-cli.exe''\<rparr>,
      \<lparr>packageName = ''@gsoc2/cli-win32-i686'', subpath = ''bin/gsoc2-cli.exe''\<rparr>]"

datatype stdio = Pipe | Ignore | Inherit

datatype api = ExecFile | Spawn

text \<open>
  A call into \<open>child_process\<close>. \<open>stdio = None\<close> is a call that passes no \<open>stdio\<close>
  option; the library then connects each of the three streams of the child by a pipe.
\<close>

record child_request =
  api :: api
  binary :: string
  argv :: "jsval list"
  child_env :: "string \<rightharpoonup> jsval"
  stdio :: "stdio list option"

text \<open>
  What becomes of a call into \<open>child_process\<close>, as far as the operating system and the
  argument checks of the library decide it. The child runs and, left alone, leaves with
  an exit status or is killed by a signal, having written some text to its standard
  output and to its standard error; or the operating system cannot start it, which it
  reports by an error name such as \<open>ENOENT\<close> or \<open>E2BIG\<close>; or the library refuses the
  arguments of the call (a NUL character in an argument, in the versions that check for
  it) and throws.
\<close>

datatype proc_outcome =
    Exited nat string string
  | Signalled string string string
  | StartFailed string
  | Refused error

text \<open>
  What the module reads from its surroundings: the process environment (its values are
  strings), the operating system and architecture names, the module's directory, the
  path and file-system functions, the module resolver (\<open>None\<close> when \<open>require.resolve\<close>
  throws), the module-level slot \<open>mockedBinaryPath\<close> (\<open>None\<close> for \<open>undefined\<close>), the
  operating system running a child process, and the decoder by which the runtime turns
  the bytes that a child has written into a string: text that is valid UTF-8 is left
  as it is, any other byte sequence is replaced. Strings are held as the bytes of their
  UTF-8 encoding.
\<close>

record world =
  env :: "string \<rightharpoonup> string"
  platform :: string
  arch :: string
  dirname :: string
  path_resolve :: "string list \<Rightarrow> string"
  existsSync :: "string \<Rightarrow> bool"
  require_resolve :: "string \<Rightarrow> string option"
  mockedBinaryPath :: "string option"
  os_run :: "child_request \<Rightarrow> proc_outcome"
  utf8_text :: "string \<Rightarrow> string"

text \<open>The file-system and resolver calls made, in order.\<close>

datatype effect = ExistsSync string | RequireResolve string

definition getFallbackBinaryPath :: "world \<Rightarrow> string" where
  "getFallbackBinaryPath w =
     path_resolve w
       [dirname w, ''..'', ''gsoc2-cli'' @ (if platform w = ''win32'' then ''.exe'' else [])]"

definition getDistributionForThisPlatform :: "world \<Rightarrow> string option \<times> string" where
  "getDistributionForThisPlatform w =
     (let packageName =
            (if platform w = ''darwin'' then Some ''@gsoc2/cli-darwin''
             else if platform w = ''linux'' \<or> platform w = ''freebsd'' then
               (if arch w = ''x64'' then Some ''@gsoc2/cli-linux-x64''
                else if arch w = ''x86'' \<or> arch w = ''ia32'' then Some ''@gsoc2/cli-linux-i686''
                else if arch w = ''arm64'' then Some ''@gsoc2/cli-linux-arm64''
                else if arch w = ''arm'' then Some ''@gsoc2/cli-linux-arm''
                else None)
             else if platform w = ''win32'' then
               (if arch w = ''x64'' then Some ''@gsoc2/cli-win32-x64''
                else if arch w = ''x86'' \<or> arch w = ''ia32'' then Some ''@gsoc2/cli-win32-i686''
                else None)
             else None);
          subpath =
            (if platform w = ''win32'' then ''bin/gsoc2-cli.exe''
             else if platform w = ''darwin'' \<or> platform w = ''linux'' \<or> platform w = ''freebsd''
               then ''bin/gsoc2-cli''
             else ''bin/gsoc2-cli'')
      in (packageName, subpath))"

definition newline :: string where
  "newline = [CHR 0x0A]"

definition unsupported_platform_message :: string where
  \<open>unsupported_platform_message =
     ''Unsupported operating system or architecture! Gsoc2 CLI does not work on this architecture.''
     @ newline @ newline
     @ ''Gsoc2 CLI supports:'' @ newline
     @ ''- Darwin (macOS)'' @ newline
     @ ''- Linux and FreeBSD on x64, x86, ia32, arm64, and arm architectures'' @ newline
     @ ''- Windows x64, x86, and ia32 architectures''\<close>

definition throwUnsupportedPlatformError :: error where
  "throwUnsupportedPlatformError = Error unsupported_platform_message"

definition wrong_package_message :: "string \<Rightarrow> string \<Rightarrow> string" where
  \<open>wrong_package_message other expected =
     ''Gsoc2 CLI binary for this platform/architecture not found!'' @ newline @ newline
     @ ''The "'' @ other @ ''" package is installed, but for the current platform, you should have the "''
     @ expected @ ''" package installed instead. This usually happens if the "@gsoc2/cli" package is installed on one platform (for example Windows or MacOS) and then the "node_modules" folder is reused on another operating system (for example Linux in Docker).''
     @ newline @ newline
     @ ''To fix this, avoid copying the "node_modules" folder, and instead freshly install your dependencies on the target system. You can also configure your package manager to install the right package. For example, yarn has the "supportedArchitectures" feature: https://yarnpkg.com/configuration/yarnrc/#supportedArchitecture.''\<close>

definition no_optional_dependencies_message :: string where
  \<open>no_optional_dependencies_message =
     ''Gsoc2 CLI binary for this platform/architecture not found!'' @ newline @ newline
     @ ''It seems like none of the "@gsoc2/cli" package's optional dependencies got installed. Please make sure your package manager is configured to install optional dependencies. If you are using npm to install your dependencies, please don't set the "--no-optional", "--ignore-optional", or "--omit=optional" flags. Gsoc2 CLI needs the "optionalDependencies" feature in order to install its binary.''\<close>

text \<open>
  \<open>BINARY_DISTRIBUTIONS.find\<close> with the resolving predicate: the distributions are tried
  in table order up to the first one that resolves.
\<close>

fun find_installed ::
  "world \<Rightarrow> BinaryDistribution list \<Rightarrow> BinaryDistribution option \<times> effect list" where
  "find_installed w [] = (None, [])"
| "find_installed w (d # ds) =
     (let request = packageName d @ ''/'' @ subpath d in
      case require_resolve w request of
        Some found \<Rightarrow> (Some d, [RequireResolve request])
      | None \<Rightarrow> (case find_installed w ds of (r, fx) \<Rightarrow> (r, RequireResolve request # fx)))"

text \<open>
  The value of an environment variable when it is truthy: a variable that is unset or
  set to the empty string is falsy.
\<close>

definition truthy_env :: "string option \<Rightarrow> string option" where
  "truthy_env v = (case v of None \<Rightarrow> None | Some s \<Rightarrow> if s = [] then None else Some s)"

definition getBinaryPath :: "world \<Rightarrow> (error + string) \<times> effect list" where
  "getBinaryPath w =
     (case truthy_env (env w ''GSOC2_BINARY_PATH'') of
        Some override \<Rightarrow> (Inr override, [])
      | None \<Rightarrow>
          (let (packageName, subpath) = getDistributionForThisPlatform w in
           case packageName of
             None \<Rightarrow> (Inl throwUnsupportedPlatformError, [])
           | Some package \<Rightarrow>
               (let fallbackBinaryPath = getFallbackBinaryPath w in
                if existsSync w fallbackBinaryPath
                  then (Inr fallbackBinaryPath, [ExistsSync fallbackBinaryPath])
                else
                  (let request = package @ ''/'' @ subpath in
                   case require_resolve w request of
                     Some compatibleBinaryPath \<Rightarrow>
                       (Inr compatibleBinaryPath,
                        [ExistsSync fallbackBinaryPath, RequireResolve request])
                   | None \<Rightarrow>
                       (case find_installed w BINARY_DISTRIBUTIONS of
                          (Some otherInstalledDistribution, fx) \<Rightarrow>
                            (Inl (Error (wrong_package_message
                                           (BinaryDistribution.packageName otherInstalledDistribution)
                                           package)),
                             [ExistsSync fallbackBinaryPath, RequireResolve request] @ fx)
                        | (None, fx) \<Rightarrow>
                            (Inl (Error no_optional_dependencies_message),
                             [ExistsSync fallbackBinaryPath, RequireResolve request] @ fx))))))"

text \<open>\<open>mockBinaryPath\<close> writes the module-level slot.\<close>

definition mockBinaryPath :: "string option \<Rightarrow> world \<Rightarrow> world" where
  "mockBinaryPath mockPath w = w\<lparr>mockedBinaryPath := mockPath\<rparr>"

definition getPath :: "world \<Rightarrow> (error + string) \<times> effect list" where
  "getPath w =
     (case mockedBinaryPath w of
        Some mocked \<Rightarrow> (Inr mocked, [])
      | None \<Rightarrow> getBinaryPath w)"

subsection \<open>The platform table of the specification\<close>

text \<open>
  The supported pairs and their packages as the specification lists them: darwin with
  any architecture; linux and freebsd with x64, x86 or ia32, arm64, arm; win32 with x64,
  x86 or ia32.
\<close>

definition documented_packages :: "((string \<times> string) \<times> string) list" where
  "documented_packages =
     [((''linux'', ''x64''), ''@gsoc2/cli-linux-x64''),
      ((''linux'', ''x86''), ''@gsoc2/cli-linux-i686''),
      ((''linux'', ''ia32''), ''@gsoc2/cli-linux-i686''),
      ((''linux'', ''arm64''), ''@gsoc2/cli-linux-arm64''),
      ((''linux'', ''arm''), ''@gsoc2/cli-linux-arm''),
      ((''freebsd'', ''x64''), ''@gsoc2/cli-linux-x64''),
      ((''freebsd'', ''x86''), ''@gsoc2/cli-linux-i686''),
      ((''freebsd'', ''ia32''), ''@gsoc2/cli-linux-i686''),
      ((''freebsd'', ''arm64''), ''@gsoc2/cli-linux-arm64''),
      ((''freebsd'', ''arm''), ''@gsoc2/cli-linux-arm''),
      ((''win32'', ''x64''), ''@gsoc2/cli-win32-x64''),
      ((''win32'', ''x86''), ''@gsoc2/cli-win32-i686''),
      ((''win32'', ''ia32''), ''@gsoc2/cli-win32-i686'')]"

definition documented_package :: "string \<Rightarrow> string \<Rightarrow> string option" where
  "documented_package os cpu =
     (if os = ''darwin'' then Some ''@gsoc2/cli-darwin'' else map_of documented_packages (os, cpu))"

definition supported :: "string \<Rightarrow> string \<Rightarrow> bool" where
  "supported os cpu = (documented_package os cpu \<noteq> None)"

definition documented_subpath :: "string \<Rightarrow> string" where
  "documented_subpath os = (if os = ''win32'' then ''bin/gsoc2-cli.exe'' else ''bin/gsoc2-cli'')"

section \<open>Running the binary\<close>

text \<open>
  What the error object of a failed child carries: the exit status or an error name in
  its \<open>code\<close> property, or, for a child killed by a signal, no code and the name of the
  signal.
\<close>

datatype exit_code = Status nat | CodeName string | BySignal string

text \<open>
  The promise returned by \<open>execute\<close>, once the child is done: resolved with a value,
  rejected with an error thrown inside the executor or with the error of the child, or
  never settled.
\<close>

datatype reason = Thrown error | ProcessError exit_code

datatype promise = Resolved jsval | Rejected reason | Pending

text \<open>
  The \<open>child_process\<close> library, as the module sees it. Both \<open>spawn\<close> and \<open>execFile\<close>
  throw at once when the file to run is the empty string or when the arguments are
  refused, and when the operating system fails to start the child with an error other
  than the five that the library reports later, through the \<open>error\<close> event of the
  child.
\<close>

definition async_start_errors :: "string list" where
  "async_start_errors = [''EACCES'', ''EAGAIN'', ''EMFILE'', ''ENFILE'', ''ENOENT'']"

definition spawn_throws :: "child_request \<Rightarrow> proc_outcome \<Rightarrow> reason option" where
  "spawn_throws r outcome =
     (if binary r = [] then Some (Thrown (TypeError ''ERR_INVALID_ARG_VALUE''))
      else
        (case outcome of
           Refused e \<Rightarrow> Some (Thrown e)
         | StartFailed name \<Rightarrow>
             if name \<in> set async_start_errors then None
             else Some (ProcessError (CodeName name))
         | _ \<Rightarrow> None))"

text \<open>
  \<open>execFile\<close> called with the option \<open>env\<close> only, so that its default encoding and its
  default \<open>maxBuffer\<close> apply: what the child writes is decoded as UTF-8, and the limit
  of 1024 * 1024 bytes applies to the decoded standard output and to the decoded
  standard error of the child: a child that writes more to either is killed, and the
  callback receives the error \<open>ERR_CHILD_PROCESS_STDIO_MAXBUFFER\<close> with the output cut
  at the limit. Otherwise
  the callback receives no error and the captured standard output when the child left
  with status 0, and an error carrying the exit status, the signal or the error name of
  the failed start otherwise. The result is the exception thrown by the call (\<open>Inl\<close>) or
  the arguments \<open>(err, stdout)\<close> of the callback.
\<close>

definition maxBuffer :: nat where
  "maxBuffer = 1024 * 1024"

definition childProcess_execFile ::
  "(string \<Rightarrow> string) \<Rightarrow> child_request \<Rightarrow> proc_outcome
     \<Rightarrow> reason + (exit_code option \<times> string)" where
  "childProcess_execFile decode r outcome =
     (case spawn_throws r outcome of
        Some thrown \<Rightarrow> Inl thrown
      | None \<Rightarrow>
          (case outcome of
             Exited status out err \<Rightarrow>
               if maxBuffer < length (decode out) \<or> maxBuffer < length (decode err)
                 then Inr (Some (CodeName ''ERR_CHILD_PROCESS_STDIO_MAXBUFFER''),
                           take maxBuffer (decode out))
               else Inr (if status = 0 then None else Some (Status status), decode out)
           | Signalled signal out err \<Rightarrow>
               if maxBuffer < length (decode out) \<or> maxBuffer < length (decode err)
                 then Inr (Some (CodeName ''ERR_CHILD_PROCESS_STDIO_MAXBUFFER''),
                           take maxBuffer (decode out))
               else Inr (Some (BySignal signal), decode out)
           | StartFailed name \<Rightarrow> Inr (Some (CodeName name), [])
           | Refused e \<Rightarrow> Inl (Thrown e)))"

text \<open>
  \<open>spawn\<close>: the exception thrown by the call (\<open>Inl\<close>), or the event that the child
  raises in the end: \<open>exit\<close> when it has run and left, by itself or by a signal, and
  \<open>error\<close> when it could not be started.
\<close>

datatype child_event = ExitEvent | ErrorEvent exit_code

definition childProcess_spawn :: "child_request \<Rightarrow> proc_outcome \<Rightarrow> reason + child_event" where
  "childProcess_spawn r outcome =
     (case spawn_throws r outcome of
        Some thrown \<Rightarrow> Inl thrown
      | None \<Rightarrow>
          (case outcome of
             Exited status out err \<Rightarrow> Inr ExitEvent
           | Signalled signal out err \<Rightarrow> Inr ExitEvent
           | StartFailed name \<Rightarrow> Inr (ErrorEvent (CodeName name))
           | Refused e \<Rightarrow> Inl (Thrown e)))"

text \<open>
  What a call of \<open>execute\<close> leaves behind: the call made into \<open>child_process\<close> (none when
  the path of the binary could not be resolved), the file-system and resolver calls
  made, the state of the returned promise, and the exception that reaches the caller's
  process outside the promise, if any.
\<close>

record execution =
  request :: "child_request option"
  effects :: "effect list"
  promise :: promise
  uncaught :: "reason option"

text \<open>
  \<open>Object.entries\<close> of a truthy value: the properties of an object, the indexed elements
  of an array, the indexed characters of a string, nothing for a number or \<open>true\<close>.
\<close>

definition Object_entries :: "jsval \<Rightarrow> (string \<times> jsval) list" where
  "Object_entries v =
     (case v of
        JObj ps \<Rightarrow> ps
      | JArr xs \<Rightarrow> zip (map nat_to_string [0..<length xs]) xs
      | JStr s \<Rightarrow> zip (map nat_to_string [0..<length s]) (map (\<lambda>c. JStr [c]) s)
      | _ \<Rightarrow> [])"

text \<open>The statement \<open>if (v) { env.NAME = v; }\<close> as a function on the environment.\<close>

definition assign_if :: "jsval \<Rightarrow> string \<Rightarrow> (string \<rightharpoonup> jsval) \<Rightarrow> (string \<rightharpoonup> jsval)" where
  "assign_if v name e = (if truthy v then e(name \<mapsto> v) else e)"

text \<open>
  The first half of \<open>execute\<close>: the environment of the child and the final argument
  list, from the current environment, the configuration file and the configuration.
\<close>

definition execute_prepare ::
  "world \<Rightarrow> jsval list \<Rightarrow> jsval \<Rightarrow> (string \<rightharpoonup> jsval)
     \<Rightarrow> (string \<rightharpoonup> jsval) \<times> jsval list" where
  "execute_prepare w args configFile config =
     (let env0 = (\<lambda>name. map_option JStr (env w name));
          env1 = assign_if configFile ''GSOC2_PROPERTIES'' env0;
          env2 = assign_if (get_prop config ''url'') ''GSOC2_URL'' env1;
          env3 = assign_if (get_prop config ''authToken'') ''GSOC2_AUTH_TOKEN'' env2;
          env4 = assign_if (get_prop config ''apiKey'') ''GSOC2_API_KEY'' env3;
          env5 = assign_if (get_prop config ''dsn'') ''GSOC2_DSN'' env4;
          env6 = assign_if (get_prop config ''org'') ''GSOC2_ORG'' env5;
          env7 = assign_if (get_prop config ''project'') ''GSOC2_PROJECT'' env6;
          env8 = assign_if (get_prop config ''vcsRemote'') ''GSOC2_VCS_REMOTE'' env7
      in
        if truthy (get_prop config ''customHeader'')
          then (env8(''CUSTOM_HEADER'' \<mapsto> get_prop config ''customHeader''), args)
        else if truthy (get_prop config ''headers'') then
          (let headers =
                 concat (map (\<lambda>(key, v). [JStr ''--header'', JStr (key @ '':'' @ js_String v)])
                             (Object_entries (get_prop config ''headers'')))
           in (env8, headers @ args))
        else (env8, args))"

text \<open>
  The second half: the executor of the returned promise. An exception thrown inside
  the executor, by \<open>getPath\<close> or by the call into \<open>child_process\<close>, rejects the promise.
  In live mode the only listener is the one on \<open>exit\<close>, which resolves the promise; an
  \<open>error\<close> event finds no listener and is thrown in the caller's process.
\<close>

definition execute_run ::
  "world \<Rightarrow> jsval list \<Rightarrow> jsval \<Rightarrow> jsval \<Rightarrow> (string \<rightharpoonup> jsval) \<Rightarrow> execution" where
  "execute_run w args live silent child_environment =
     (if live = JBool True then
        (let output = (if truthy silent then Ignore else Inherit) in
         case getPath w of
           (Inl e, fx) \<Rightarrow>
             \<lparr>request = None, effects = fx, promise = Rejected (Thrown e), uncaught = None\<rparr>
         | (Inr path, fx) \<Rightarrow>
             (let pid = \<lparr>api = Spawn, binary = path, argv = args, child_env = child_environment,
                         stdio = Some [Ignore, output, output]\<rparr>
              in case childProcess_spawn pid (os_run w pid) of
                   Inl thrown \<Rightarrow>
                     \<lparr>request = Some pid, effects = fx, promise = Rejected thrown,
                      uncaught = None\<rparr>
                 | Inr ExitEvent \<Rightarrow>
                     \<lparr>request = Some pid, effects = fx, promise = Resolved JUndefined,
                      uncaught = None\<rparr>
                 | Inr (ErrorEvent err) \<Rightarrow>
                     \<lparr>request = Some pid, effects = fx, promise = Pending,
                      uncaught = Some (ProcessError err)\<rparr>))
      else
        (case getPath w of
           (Inl e, fx) \<Rightarrow>
             \<lparr>request = None, effects = fx, promise = Rejected (Thrown e), uncaught = None\<rparr>
         | (Inr path, fx) \<Rightarrow>
             (let call = \<lparr>api = ExecFile, binary = path, argv = args, child_env = child_environment,
                          stdio = None\<rparr>
              in case childProcess_execFile (utf8_text w) call (os_run w call) of
                   Inl thrown \<Rightarrow>
                     \<lparr>request = Some call, effects = fx, promise = Rejected thrown,
                      uncaught = None\<rparr>
                 | Inr (Some err, stdout) \<Rightarrow>
                     \<lparr>request = Some call, effects = fx, promise = Rejected (ProcessError err),
                      uncaught = None\<rparr>
                 | Inr (None, stdout) \<Rightarrow>
                     \<lparr>request = Some call, effects = fx, promise = Resolved (JStr stdout),
                      uncaught = None\<rparr>)))"

text \<open>The default parameter \<open>config = {}\<close>: \<open>None\<close> is an omitted \<open>config\<close>.\<close>

definition config_or_default :: "(string \<rightharpoonup> jsval) option \<Rightarrow> (string \<rightharpoonup> jsval)" where
  "config_or_default config = (case config of None \<Rightarrow> Map.empty | Some c \<Rightarrow> c)"

text \<open>\<open>execute(args, live, silent, configFile, config = {})\<close>.\<close>

definition execute ::
  "world \<Rightarrow> jsval list \<Rightarrow> jsval \<Rightarrow> jsval \<Rightarrow> jsval \<Rightarrow> (string \<rightharpoonup> jsval) option \<Rightarrow> execution" where
  "execute w args live silent configFile config =
     (case execute_prepare w args configFile (config_or_default config) of
        (child_environment, final_args) \<Rightarrow> execute_run w final_args live silent child_environment)"

subsection \<open>The child environment of the specification\<close>

text \<open>
  The recognized configuration fields with their dedicated environment variables, and
  the variable of the configuration-file path.
\<close>

definition config_variables :: "(string \<times> string) list" where
  "config_variables =
     [(''url'', ''GSOC2_URL''),
      (''authToken'', ''GSOC2_AUTH_TOKEN''),
      (''apiKey'', ''GSOC2_API_KEY''),
      (''dsn'', ''GSOC2_DSN''),
      (''org'', ''GSOC2_ORG''),
      (''project'', ''GSOC2_PROJECT''),
      (''vcsRemote'', ''GSOC2_VCS_REMOTE''),
      (''customHeader'', ''CUSTOM_HEADER'')]"

text \<open>A field is present when its value is truthy; an absent field reads \<open>undefined\<close>.\<close>

definition present :: "(string \<rightharpoonup> jsval) \<Rightarrow> string \<Rightarrow> bool" where
  "present config field = truthy (get_prop config field)"

text \<open>
  The overlay: the configuration-file variable when a configuration file is given, and
  the variable of every recognized field that is present, with the field's value.
\<close>

definition spec_overlay :: "jsval \<Rightarrow> (string \<rightharpoonup> jsval) \<Rightarrow> (string \<rightharpoonup> jsval)" where
  "spec_overlay configFile config =
     map_of
       ((if truthy configFile then [(''GSOC2_PROPERTIES'', configFile)] else [])
        @ map (\<lambda>(field, variable). (variable, get_prop config field))
              (filter (\<lambda>(field, variable). present config field) config_variables))"

text \<open>The child environment: the current environment with the overlay laid over it.\<close>

definition spec_child_env :: "world \<Rightarrow> jsval \<Rightarrow> (string \<rightharpoonup> jsval) \<Rightarrow> (string \<rightharpoonup> jsval)" where
  "spec_child_env w configFile config =
     (\<lambda>name. map_option JStr (env w name)) ++ spec_overlay configFile config"

text \<open>The header tokens of the specification: a pair of tokens per entry of the mapping.\<close>

fun spec_header_tokens :: "(string \<times> jsval) list \<Rightarrow> jsval list" where
  "spec_header_tokens [] = []"
| "spec_header_tokens ((key, v) # rest) =
     JStr ''--header'' # JStr (key @ '':'' @ js_String v) # spec_header_tokens rest"

text \<open>
  The argument list that the child receives: the caller's arguments, with the header
  tokens before them when the header mapping is present and the custom header is not.
\<close>

definition spec_final_args :: "jsval list \<Rightarrow> (string \<rightharpoonup> jsval) \<Rightarrow> jsval list" where
  "spec_final_args args config =
     (if present config ''customHeader'' then args
      else if present config ''headers''
        then spec_header_tokens (Object_entries (get_prop config ''headers'')) @ args
      else args)"

text \<open>
  How the promise of a buffered call is settled, as the amended claim words it, from
  the decoder, the resolved path and what becomes of the call. An empty path and
  refused arguments reject with the error thrown by the library; a failed start rejects
  with the error name; decoded output beyond \<open>maxBuffer\<close> on either stream rejects with
  \<open>ERR_CHILD_PROCESS_STDIO_MAXBUFFER\<close>; otherwise exit status 0 resolves with the
  decoded standard output, neither trimmed nor otherwise changed, a nonzero status
  rejects with that status and a signal rejects with the name of the signal.
\<close>

definition spec_buffered_promise :: "(string \<Rightarrow> string) \<Rightarrow> string \<Rightarrow> proc_outcome \<Rightarrow> promise" where
  "spec_buffered_promise decode path outcome =
     (if path = [] then Rejected (Thrown (TypeError ''ERR_INVALID_ARG_VALUE''))
      else
        (case outcome of
           Refused e \<Rightarrow> Rejected (Thrown e)
         | StartFailed name \<Rightarrow> Rejected (ProcessError (CodeName name))
         | Exited status out err \<Rightarrow>
             if length (decode out) \<le> maxBuffer \<and> length (decode err) \<le> maxBuffer then
               (if status = 0 then Resolved (JStr (decode out))
                else Rejected (ProcessError (Status status)))
             else Rejected (ProcessError (CodeName ''ERR_CHILD_PROCESS_STDIO_MAXBUFFER''))
         | Signalled signal out err \<Rightarrow>
             if length (decode out) \<le> maxBuffer \<and> length (decode err) \<le> maxBuffer
               then Rejected (ProcessError (BySignal signal))
             else Rejected (ProcessError (CodeName ''ERR_CHILD_PROCESS_STDIO_MAXBUFFER''))))"

text \<open>
  How the promise of a live call is settled, as the amended claim words it: an empty
  path and refused arguments reject with the error thrown by the library; a child that
  has run resolves with no value, whatever its exit status or signal; a start that
  fails with one of the five errors reported through the \<open>error\<close> event leaves the
  promise unsettled and the error uncaught in the caller's process; a start that fails
  with any other error rejects with that error.
\<close>

definition spec_live_promise :: "string \<Rightarrow> proc_outcome \<Rightarrow> promise" where
  "spec_live_promise path outcome =
     (if path = [] then Rejected (Thrown (TypeError ''ERR_INVALID_ARG_VALUE''))
      else
        (case outcome of
           Exited status out err \<Rightarrow> Resolved JUndefined
         | Signalled signal out err \<Rightarrow> Resolved JUndefined
         | StartFailed name \<Rightarrow>
             if name \<in> set [''EACCES'', ''EAGAIN'', ''EMFILE'', ''ENFILE'', ''ENOENT'']
               then Pending
             else Rejected (ProcessError (CodeName name))
         | Refused e \<Rightarrow> Rejected (Thrown e)))"

definition spec_live_uncaught :: "string \<Rightarrow> proc_outcome \<Rightarrow> reason option" where
  "spec_live_uncaught path outcome =
     (if path = [] then None
      else
        (case outcome of
           StartFailed name \<Rightarrow>
             if name \<in> set [''EACCES'', ''EAGAIN'', ''EMFILE'', ''ENFILE'', ''ENOENT'']
               then Some (ProcessError (CodeName name))
             else None
         | _ \<Rightarrow> None))"

text \<open>Whether a request leaves the child with its standard input closed.\<close>

definition stdin_closed :: "child_request \<Rightarrow> bool" where
  "stdin_closed r = (case stdio r of Some (Ignore # rest) \<Rightarrow> True | _ \<Rightarrow> False)"

section \<open>Example inputs\<close>

text \<open>
  An installation on linux/x64 whose companion package is installed and which has no
  fallback binary. The binary prints its version for \<open>--version\<close> and leaves with
  status 0; on every other argument list it leaves with status 2. All the text written
  in the examples is valid UTF-8, which the decoder leaves as it is.
\<close>

definition example_world :: world where
  "example_world =
     \<lparr>env = [''PATH'' \<mapsto> ''/usr/bin''],
      platform = ''linux'',
      arch = ''x64'',
      dirname = ''/app/node_modules/@gsoc2/cli/js'',
      path_resolve = (\<lambda>parts. ''/app/node_modules/@gsoc2/cli/gsoc2-cli''),
      existsSync = (\<lambda>path. False),
      require_resolve =
        (\<lambda>r. if r = ''@gsoc2/cli-linux-x64/bin/gsoc2-cli''
             then Some ''/app/node_modules/@gsoc2/cli-linux-x64/bin/gsoc2-cli'' else None),
      mockedBinaryPath = None,
      os_run = (\<lambda>r. if argv r = [JStr ''--version'']
                     then Exited 0 (''gsoc2-cli 2.0.0'' @ newline) [] else Exited 2 [] []),
      utf8_text = (\<lambda>bytes. bytes)\<rparr>"

text \<open>The same installation with the environment-level override set.\<close>

definition override_world :: world where
  "override_world = example_world\<lparr>env := [''GSOC2_BINARY_PATH'' \<mapsto> ''/opt/gsoc2-cli'']\<rparr>"

text \<open>
  The same installation with a binary that writes one byte more than \<open>maxBuffer\<close>
  to its standard output and would then leave with status 0, and with one that the
  operating system cannot start because its argument list is too long.
\<close>

definition big_output_world :: world where
  "big_output_world =
     example_world\<lparr>os_run := (\<lambda>r. Exited 0 (replicate (maxBuffer + 1) (CHR ''a'')) [])\<rparr>"

definition no_start_world :: world where
  "no_start_world = example_world\<lparr>os_run := (\<lambda>r. StartFailed ''E2BIG'')\<rparr>"

text \<open>An unsupported platform on which the fallback binary exists.\<close>

definition unsupported_world :: world where
  "unsupported_world = example_world\<lparr>platform := ''sunos'', existsSync := (\<lambda>path. True)\<rparr>"

definition example_schema :: OptionsSchema where
  "example_schema =
     [(''paths'', \<lparr>param = Some ''--path'', type = ''array'', invertedParam = None\<rparr>),
      (''yes'', \<lparr>param = Some ''--yes'', type = ''boolean'', invertedParam = Some ''--no''\<rparr>),
      (''quiet'', \<lparr>param = Some ''--quiet'', type = ''boolean'', invertedParam = None\<rparr>),
      (''dist'', \<lparr>param = Some ''--dist'', type = ''string'', invertedParam = None\<rparr>)]"

definition example_options :: "string \<rightharpoonup> jsval" where
  "example_options =
     [''paths'' \<mapsto> JArr [JStr ''a'', JStr ''b''],
      ''yes'' \<mapsto> JBool False,
      ''quiet'' \<mapsto> JBool False,
      ''dist'' \<mapsto> JNum 7,
      ''unknown'' \<mapsto> JStr ''ignored'']"

text \<open>A schema with one string-typed option, and options that give it an array.\<close>

definition string_schema :: OptionsSchema where
  "string_schema = [(''dist'', \<lparr>param = Some ''--dist'', type = ''string'', invertedParam = None\<rparr>)]"

definition array_for_string :: "string \<rightharpoonup> jsval" where
  "array_for_string = [''dist'' \<mapsto> JArr [JStr ''a'', JStr ''b'']]"

text \<open>
  A schema whose only option bears the name of an inherited member, and a schema that
  defines an option named by an array index after another option.
\<close>

definition inherited_schema :: OptionsSchema where
  "inherited_schema =
     [(''toString'', \<lparr>param = Some ''--to-string'', type = ''boolean'', invertedParam = None\<rparr>)]"

definition index_schema :: OptionsSchema where
  "index_schema =
     [(''b'', \<lparr>param = Some ''--b'', type = ''string'', invertedParam = None\<rparr>),
      (''1'', \<lparr>param = Some ''--one'', type = ''string'', invertedParam = None\<rparr>)]"

definition index_options :: "string \<rightharpoonup> jsval" where
  "index_options = [''b'' \<mapsto> JStr ''x'', ''1'' \<mapsto> JStr ''y'']"

definition example_config :: "string \<rightharpoonup> jsval" where
  "example_config = [''url'' \<mapsto> JStr ''https://x'', ''authToken'' \<mapsto> JStr ''t'']"

text \<open>A configuration with a header mapping, and the same with a custom header as well.\<close>

definition headers_config :: "string \<rightharpoonup> jsval" where
  "headers_config = [''headers'' \<mapsto> JObj [(''X-A'', JStr ''1''), (''X-B'', JStr ''2'')]]"

definition custom_header_config :: "string \<rightharpoonup> jsval" where
  "custom_header_config =
     [''headers'' \<mapsto> JObj [(''X-A'', JStr ''1''), (''X-B'', JStr ''2'')],
      ''customHeader'' \<mapsto> JStr ''X-C: 3'']"

section \<open>Serialisation against the reference serializer\<close>

lemma foldl_flag_pairs:
  "foldl (\<lambda>acc v. acc @ [p, JStr (js_String v)]) a vs
     = a @ concat (map (\<lambda>e. [p, JStr (js_String e)]) vs)"
  by (induction vs arbitrary: a) simp_all

lemma serializeOption_tokens:
  assumes "map_of schema name = Some decl"
      and "spec_contribution spec_other_spliced (js_get options) (name, decl) = Inr ts"
  shows "serializeOption schema options acc name = Inr (acc @ ts)"
  using assms
  by (auto simp: serializeOption_def spec_contribution_def Let_def foldl_flag_pairs
        array_concat_def spec_other_spliced_def js_of_opt_def
      split: option.splits jsval.splits if_splits bool.splits)

lemma serializeOption_error:
  assumes "map_of schema name = Some decl"
      and "spec_contribution spec_other_spliced (js_get options) (name, decl) = Inl n"
  shows "\<exists>e. serializeOption schema options acc name = Inl e \<and> names_option e n"
  using assms
  by (auto simp: serializeOption_def spec_contribution_def Let_def names_option_def
      split: option.splits jsval.splits if_splits bool.splits)

text \<open>
  The left fold of the code against the right-recursive reference, for any accumulated
  prefix and any list of entries of the schema whose names look themselves up.
\<close>

lemma reduce_agrees:
  assumes "\<forall>entry \<in> set es. map_of schema (fst entry) = Some (snd entry)"
  shows "agrees (reduce (serializeOption schema options) (map fst es) acc)
           (map_sum id ((@) acc)
              (spec_serializeOptions spec_other_spliced (js_get options) es))"
  using assms
proof (induction es arbitrary: acc)
  case Nil
  then show ?case by (simp add: agrees_def)
next
  case (Cons entry es)
  obtain name decl where entry: "entry = (name, decl)" by (cases entry)
  from Cons.prems entry have look: "map_of schema name = Some decl" by simp
  from Cons.prems have rest: "\<forall>entry \<in> set es. map_of schema (fst entry) = Some (snd entry)"
    by simp
  show ?case
  proof (cases "spec_contribution spec_other_spliced (js_get options) (name, decl)")
    case (Inl n)
    from serializeOption_error[OF look Inl] obtain e where
      "serializeOption schema options acc name = Inl e" "names_option e n" by blast
    with Inl entry show ?thesis by (simp add: agrees_def)
  next
    case (Inr ts)
    from serializeOption_tokens[OF look Inr]
    have step: "serializeOption schema options acc name = Inr (acc @ ts)" .
    from Cons.IH[OF rest, of "acc @ ts"] Inr entry step show ?thesis
      by (auto simp: agrees_def split: sum.splits)
  qed
qed

lemma set_enumeration_order: "set (enumeration_order props) = set props"
  by (auto simp: enumeration_order_def)

lemma enumerated_keys_lookup:
  assumes "distinct (map fst schema)"
  shows "\<forall>entry \<in> set (enumeration_order schema). map_of schema (fst entry) = Some (snd entry)"
  using assms by (auto simp: set_enumeration_order)

lemma map_sum_append_Nil: "map_sum id ((@) []) s = s"
  by (cases s) simp_all

text \<open>
  C1 as the specification states it, at three inputs. A string-typed option whose
  value is an array: the code gives the three tokens \<open>--dist\<close>, \<open>a\<close>, \<open>b\<close>, the reference
  serializer the flag and the array itself. A boolean option named \<open>toString\<close> and no
  options at all: the code reads the inherited function and throws, the reference
  serializer skips the absent option. An option named \<open>1\<close> defined after an option
  named \<open>b\<close>: the code serializes \<open>1\<close> first, the reference serializer \<open>b\<close>.
\<close>

theorem serializeOptions_verbatim_counterexample:
  "\<not> agrees (serializeOptions string_schema array_for_string)
            (spec_reference string_schema array_for_string)
   \<and> \<not> agrees (serializeOptions inherited_schema Map.empty)
              (spec_reference inherited_schema Map.empty)
   \<and> \<not> agrees (serializeOptions index_schema index_options)
              (spec_reference index_schema index_options)"
proof -
  have splice: "serializeOptions string_schema array_for_string
                  = Inr [JStr ''--dist'', JStr ''a'', JStr ''b'']"
    by (simp add: serializeOptions_def Object_keys_def enumeration_order_def array_index_def
          digit_value_def serializeOption_def string_schema_def array_for_string_def js_get_def
          js_of_opt_def array_concat_def)
  have splice_ref: "spec_reference string_schema array_for_string
                  = Inr [JStr ''--dist'', JArr [JStr ''a'', JStr ''b'']]"
    by (simp add: spec_reference_def spec_contribution_def spec_other_verbatim_def
          string_schema_def array_for_string_def get_prop_def js_of_opt_def Let_def)
  have inherited: "serializeOptions inherited_schema Map.empty
                  = Inl (Error ''toString should be a bool'')"
    by (simp add: serializeOptions_def Object_keys_def enumeration_order_def array_index_def
          digit_value_def serializeOption_def inherited_schema_def js_get_def
          Object_prototype_def js_of_opt_def)
  have inherited_ref: "spec_reference inherited_schema Map.empty = Inr []"
    by (simp add: spec_reference_def spec_contribution_def inherited_schema_def get_prop_def
          Let_def)
  have index: "serializeOptions index_schema index_options
                  = Inr [JStr ''--one'', JStr ''y'', JStr ''--b'', JStr ''x'']"
    by (simp add: serializeOptions_def Object_keys_def enumeration_order_def array_index_def
          digit_value_def serializeOption_def index_schema_def index_options_def js_get_def
          js_of_opt_def array_concat_def)
  have index_ref: "spec_reference index_schema index_options
                  = Inr [JStr ''--b'', JStr ''x'', JStr ''--one'', JStr ''y'']"
    by (simp add: spec_reference_def spec_contribution_def spec_other_verbatim_def
          index_schema_def index_options_def get_prop_def js_of_opt_def Let_def)
  show ?thesis
    unfolding splice splice_ref inherited inherited_ref index index_ref
    by (simp add: agrees_def)
qed

text \<open>
  C1 (amended): for a schema with distinct option names, \<open>serializeOptions\<close> agrees with
  the amended reference serializer. The entries are visited in the order in which
  \<open>Object.keys\<close> enumerates them: names that are array indices first, by ascending
  index, then the other names in defined order. The value of an option is what the
  read \<open>options[name]\<close> finds: for a name that the options do not hold it is the member
  of that name inherited from \<open>Object.prototype\<close> when there is one, and absent
  otherwise. Nothing is contributed for an absent (\<open>undefined\<close> or \<open>null\<close>) value; for
  an \<open>array\<close> option the flag and the stringified element, per element in array order,
  and a schema validation error naming the option for a value that is not an array;
  for a \<open>boolean\<close> option the flag for \<open>true\<close> and the inverted flag for \<open>false\<close> where
  declared, nothing otherwise, and a schema validation error for a value that is not a
  boolean; for every other type the flag followed by the value verbatim, where a value
  that is an array contributes its elements one by one. On failure the error is that
  of the first offending entry.
\<close>

theorem serializeOptions_refines_reference:
  assumes "distinct (map fst schema)"
  shows "agrees (serializeOptions schema options) (spec_reference_amended schema options)"
  using reduce_agrees[OF enumerated_keys_lookup[OF assms], of options "[]"]
  by (simp add: serializeOptions_def Object_keys_def spec_reference_amended_def
        map_sum_append_Nil)

theorem serializeOptions_refines_reference_witness:
  "distinct (map fst example_schema)
   \<and> agrees (serializeOptions example_schema example_options)
        (spec_reference_amended example_schema example_options)
   \<and> spec_reference_amended example_schema example_options
       = Inr [JStr ''--path'', JStr ''a'', JStr ''--path'', JStr ''b'', JStr ''--no'',
              JStr ''--dist'', JNum 7]
   \<and> distinct (map fst index_schema)
   \<and> agrees (serializeOptions index_schema index_options)
        (spec_reference_amended index_schema index_options)
   \<and> spec_reference_amended index_schema index_options
       = Inr [JStr ''--one'', JStr ''y'', JStr ''--b'', JStr ''x'']"
proof -
  have keys: "distinct (map fst example_schema)"
    by (simp add: example_schema_def)
  have tokens: "spec_reference_amended example_schema example_options
       = Inr [JStr ''--path'', JStr ''a'', JStr ''--path'', JStr ''b'', JStr ''--no'',
              JStr ''--dist'', JNum 7]"
    by (simp add: spec_reference_amended_def enumeration_order_def array_index_def
          digit_value_def example_schema_def example_options_def spec_contribution_def
          spec_other_spliced_def js_get_def js_of_opt_def Let_def)
  have keys': "distinct (map fst index_schema)"
    by (simp add: index_schema_def)
  have tokens': "spec_reference_amended index_schema index_options
       = Inr [JStr ''--one'', JStr ''y'', JStr ''--b'', JStr ''x'']"
    by (simp add: spec_reference_amended_def enumeration_order_def array_index_def
          digit_value_def index_schema_def index_options_def spec_contribution_def
          spec_other_spliced_def js_get_def js_of_opt_def Let_def)
  from keys tokens keys' tokens'
    serializeOptions_refines_reference[OF keys, of example_options]
    serializeOptions_refines_reference[OF keys', of index_options]
  show ?thesis by simp
qed

section \<open>Preparing a command\<close>

text \<open>For a command given as a sequence of tokens the serialized options follow the tokens.\<close>

lemma prepareCommand_array:
  "prepareCommand (JArr cs) schema options =
     (case serializeOptions (case schema of None \<Rightarrow> [] | Some s \<Rightarrow> s)
                            (case options of None \<Rightarrow> Map.empty | Some opts \<Rightarrow> opts) of
        Inl e \<Rightarrow> Inl e
      | Inr tokens \<Rightarrow> Inr (JArr (cs @ tokens)))"
  by (simp add: prepareCommand_def array_concat_def split: sum.splits)

text \<open>
  With an empty options object nothing is serialized, as long as no option of the
  schema bears the name of an inherited member.
\<close>

lemma serializeOptions_no_options:
  assumes "\<forall>name \<in> set (map fst schema). Object_prototype name = None"
  shows "serializeOptions schema Map.empty = Inr []"
proof -
  have "reduce (serializeOption schema Map.empty) ks acc = Inr acc"
    if "\<forall>name \<in> set ks. Object_prototype name = None" for ks acc
    using that by (induction ks) (simp_all add: serializeOption_def js_get_def)
  moreover from assms have "\<forall>name \<in> set (Object_keys schema). Object_prototype name = None"
    by (auto simp: Object_keys_def set_enumeration_order)
  ultimately show ?thesis by (simp add: serializeOptions_def)
qed

lemma prepareCommand_releases_new:
  assumes "\<forall>name \<in> set (map fst schema). Object_prototype name = None"
  shows "prepareCommand (JArr [JStr ''releases'', JStr ''new'']) (Some schema) (Some Map.empty)
           = Inr (JArr [JStr ''releases'', JStr ''new''])"
  by (simp add: prepareCommand_array serializeOptions_no_options[OF assms])

text \<open>
  C9 on the code, at a command given as a literal string: the result is one string,
  the command with the comma-joined tokens appended to it, and not the list of the
  command followed by the option tokens \<open>--dist\<close> and \<open>a\<close>.
\<close>

theorem prepareCommand_literal_string:
  "prepareCommand (JStr ''releases'') (Some string_schema) (Some [''dist'' \<mapsto> JStr ''a''])
     = Inr (JStr ''releases--dist,a'')
   \<and> serializeOptions string_schema [''dist'' \<mapsto> JStr ''a''] = Inr [JStr ''--dist'', JStr ''a'']"
  by (simp add: prepareCommand_def serializeOptions_def Object_keys_def enumeration_order_def
        array_index_def digit_value_def serializeOption_def string_schema_def
        js_get_def js_of_opt_def array_concat_def)
section \<open>Resolution of the binary path\<close>

lemma example_world_path:
  "getPath example_world =
     (Inr ''/app/node_modules/@gsoc2/cli-linux-x64/bin/gsoc2-cli'',
      [ExistsSync ''/app/node_modules/@gsoc2/cli/gsoc2-cli'',
       RequireResolve ''@gsoc2/cli-linux-x64/bin/gsoc2-cli''])"
  by (simp add: getPath_def getBinaryPath_def example_world_def truthy_env_def
        getDistributionForThisPlatform_def getFallbackBinaryPath_def)

text \<open>
  C4 as the specification states it, with the environment-level override and the
  test-only substitution both set: resolution returns the substitution, not the
  override.
\<close>

theorem getPath_override_counterexample:
  "truthy_env (env override_world ''GSOC2_BINARY_PATH'') = Some ''/opt/gsoc2-cli''
   \<and> fst (getPath (mockBinaryPath (Some ''/mock/gsoc2-cli'') override_world))
       = Inr ''/mock/gsoc2-cli''"
  by (simp add: getPath_def mockBinaryPath_def override_world_def truthy_env_def)

text \<open>
  C4 (amended): the first match wins in the order substitution, then override. A
  test-only substitution set through the override hook is returned verbatim whatever
  the environment holds, without any file-system or resolver call; the
  environment-level override is returned verbatim when no substitution is set.
\<close>

theorem getPath_order:
  "getPath (mockBinaryPath (Some mocked) w) = (Inr mocked, [])
   \<and> (mockedBinaryPath w = None \<longrightarrow> truthy_env (env w ''GSOC2_BINARY_PATH'') = Some override
        \<longrightarrow> getPath w = (Inr override, []))"
  by (simp add: getPath_def mockBinaryPath_def getBinaryPath_def)

theorem getPath_order_witness:
  "getPath (mockBinaryPath (Some ''/mock/gsoc2-cli'') override_world) = (Inr ''/mock/gsoc2-cli'', [])
   \<and> mockedBinaryPath override_world = None
   \<and> truthy_env (env override_world ''GSOC2_BINARY_PATH'') = Some ''/opt/gsoc2-cli''
   \<and> getPath override_world = (Inr ''/opt/gsoc2-cli'', [])"
proof -
  have unset: "mockedBinaryPath override_world = None"
    by (simp add: override_world_def example_world_def)
  have override: "truthy_env (env override_world ''GSOC2_BINARY_PATH'') = Some ''/opt/gsoc2-cli''"
    by (simp add: override_world_def truthy_env_def)
  from unset override
    getPath_order[of "''/mock/gsoc2-cli''" override_world "''/opt/gsoc2-cli''"]
  show ?thesis by simp
qed

lemma unsupported_no_package:
  "\<not> supported (platform w) (arch w) \<Longrightarrow> fst (getDistributionForThisPlatform w) = None"
  by (auto simp: supported_def documented_package_def documented_packages_def
        getDistributionForThisPlatform_def split: if_splits)

text \<open>
  C5 as the specification states it, on an unsupported platform where the fallback
  binary exists and neither override is set: resolution fails with the
  unsupported-platform error instead of returning the fallback path.
\<close>

theorem unsupported_fallback_counterexample:
  "\<not> supported (platform unsupported_world) (arch unsupported_world)
   \<and> existsSync unsupported_world (getFallbackBinaryPath unsupported_world)
   \<and> mockedBinaryPath unsupported_world = None
   \<and> env unsupported_world ''GSOC2_BINARY_PATH'' = None
   \<and> getPath unsupported_world = (Inl (Error unsupported_platform_message), [])"
  by (simp add: getPath_def getBinaryPath_def unsupported_world_def example_world_def
        truthy_env_def getDistributionForThisPlatform_def getFallbackBinaryPath_def
        supported_def documented_package_def documented_packages_def
        throwUnsupportedPlatformError_def)

text \<open>
  C5 (amended): on every unsupported pair of operating system and architecture the
  test-only substitution and the environment-level override still resolve; when
  neither is set, resolution fails with the unsupported-platform error, whose message
  lists the supported platforms, and it makes no file-system or resolver call: neither
  the fallback location nor a companion package is looked at.
\<close>

theorem unsupported_platform:
  assumes "\<not> supported (platform w) (arch w)"
  shows "getPath w =
           (case mockedBinaryPath w of
              Some mocked \<Rightarrow> (Inr mocked, [])
            | None \<Rightarrow>
                (case truthy_env (env w ''GSOC2_BINARY_PATH'') of
                   Some override \<Rightarrow> (Inr override, [])
                 | None \<Rightarrow> (Inl (Error unsupported_platform_message), [])))"
  using unsupported_no_package[OF assms]
  by (cases "getDistributionForThisPlatform w")
     (simp add: getPath_def getBinaryPath_def throwUnsupportedPlatformError_def
        split: option.splits)

theorem unsupported_platform_witness:
  "\<not> supported (platform unsupported_world) (arch unsupported_world)
   \<and> getPath unsupported_world = (Inl (Error unsupported_platform_message), [])
   \<and> getPath (unsupported_world\<lparr>env := [''GSOC2_BINARY_PATH'' \<mapsto> ''/opt/gsoc2-cli'']\<rparr>)
       = (Inr ''/opt/gsoc2-cli'', [])"
proof -
  have no: "\<not> supported (platform unsupported_world) (arch unsupported_world)"
    by (simp add: unsupported_world_def supported_def documented_package_def
          documented_packages_def)
  have no': "\<not> supported
      (platform (unsupported_world\<lparr>env := [''GSOC2_BINARY_PATH'' \<mapsto> ''/opt/gsoc2-cli'']\<rparr>))
      (arch (unsupported_world\<lparr>env := [''GSOC2_BINARY_PATH'' \<mapsto> ''/opt/gsoc2-cli'']\<rparr>))"
    using no by simp
  from no unsupported_platform[OF no] unsupported_platform[OF no']
  show ?thesis
    by (simp add: unsupported_world_def example_world_def truthy_env_def)
qed

lemma distribution_documented:
  "getDistributionForThisPlatform w
     = (documented_package (platform w) (arch w), documented_subpath (platform w))"
  by (simp add: getDistributionForThisPlatform_def documented_package_def documented_packages_def
        documented_subpath_def)

lemma documented_row:
  assumes "documented_package os cpu = Some package"
  shows "\<lparr>packageName = package, subpath = documented_subpath os\<rparr> \<in> set BINARY_DISTRIBUTIONS"
  using assms
  by (auto simp: documented_package_def documented_packages_def documented_subpath_def
        BINARY_DISTRIBUTIONS_def split: if_splits)

lemma getBinaryPath_companion:
  assumes "getDistributionForThisPlatform w = (Some package, sub)"
      and "truthy_env (env w ''GSOC2_BINARY_PATH'') = None"
      and "\<not> existsSync w (getFallbackBinaryPath w)"
      and "require_resolve w (package @ ''/'' @ sub) = Some path"
  shows "getBinaryPath w =
           (Inr path, [ExistsSync (getFallbackBinaryPath w), RequireResolve (package @ ''/'' @ sub)])"
  using assms by (simp add: getBinaryPath_def Let_def)

text \<open>
  C6: for every supported pair of operating system and architecture the distribution
  computed for the platform is a row of \<open>BINARY_DISTRIBUTIONS\<close>; its package is the one
  the documented table gives (darwin with any architecture; linux and freebsd with x64,
  x86 or ia32, arm64, arm; win32 with x64, x86 or ia32) and its subpath is
  \<open>bin/gsoc2-cli.exe\<close> on win32 and \<open>bin/gsoc2-cli\<close> otherwise. When no override is set
  and no fallback binary exists, the path returned is the one this package and subpath
  resolve to.
\<close>

theorem distribution_table:
  assumes "supported (platform w) (arch w)"
  shows "\<exists>package.
           getDistributionForThisPlatform w = (Some package, documented_subpath (platform w))
           \<and> documented_package (platform w) (arch w) = Some package
           \<and> \<lparr>packageName = package, subpath = documented_subpath (platform w)\<rparr>
               \<in> set BINARY_DISTRIBUTIONS
           \<and> (truthy_env (env w ''GSOC2_BINARY_PATH'') = None
                \<longrightarrow> \<not> existsSync w (getFallbackBinaryPath w)
                \<longrightarrow> require_resolve w (package @ ''/'' @ documented_subpath (platform w)) = Some path
                \<longrightarrow> fst (getBinaryPath w) = Inr path)"
proof -
  from assms obtain package where package: "documented_package (platform w) (arch w) = Some package"
    by (auto simp: supported_def)
  have dist: "getDistributionForThisPlatform w = (Some package, documented_subpath (platform w))"
    by (simp add: distribution_documented package)
  have "fst (getBinaryPath w) = Inr path"
    if "truthy_env (env w ''GSOC2_BINARY_PATH'') = None"
       "\<not> existsSync w (getFallbackBinaryPath w)"
       "require_resolve w (package @ ''/'' @ documented_subpath (platform w)) = Some path"
    using getBinaryPath_companion[OF dist that] by simp
  with package dist documented_row[OF package] show ?thesis
    by (intro exI[of _ package]) simp
qed

theorem distribution_table_witness:
  "supported (platform example_world) (arch example_world)
   \<and> getDistributionForThisPlatform example_world = (Some ''@gsoc2/cli-linux-x64'', ''bin/gsoc2-cli'')
   \<and> documented_package (platform example_world) (arch example_world) = Some ''@gsoc2/cli-linux-x64''
   \<and> \<lparr>packageName = ''@gsoc2/cli-linux-x64'', subpath = ''bin/gsoc2-cli''\<rparr>
       \<in> set BINARY_DISTRIBUTIONS
   \<and> fst (getBinaryPath example_world) = Inr ''/app/node_modules/@gsoc2/cli-linux-x64/bin/gsoc2-cli''"
proof -
  have yes: "supported (platform example_world) (arch example_world)"
    by (simp add: example_world_def supported_def documented_package_def documented_packages_def)
  have pkg: "documented_package (platform example_world) (arch example_world)
               = Some ''@gsoc2/cli-linux-x64''"
    by (simp add: example_world_def documented_package_def documented_packages_def)
  have sub: "documented_subpath (platform example_world) = ''bin/gsoc2-cli''"
    by (simp add: example_world_def documented_subpath_def)
  have none: "truthy_env (env example_world ''GSOC2_BINARY_PATH'') = None"
    and nofile: "\<not> existsSync example_world (getFallbackBinaryPath example_world)"
    and found: "require_resolve example_world (''@gsoc2/cli-linux-x64'' @ ''/'' @ ''bin/gsoc2-cli'')
                  = Some ''/app/node_modules/@gsoc2/cli-linux-x64/bin/gsoc2-cli''"
    by (simp_all add: example_world_def truthy_env_def)
  from distribution_table[OF yes, of "''/app/node_modules/@gsoc2/cli-linux-x64/bin/gsoc2-cli''"]
    yes pkg sub none nofile found
  show ?thesis by auto
qed

section \<open>Execution\<close>

subsection \<open>The request made\<close>

lemma execute_run_request:
  assumes "fst (getPath w) = Inr path"
  shows "request (execute_run w args live silent cenv) =
           Some (if live = JBool True
                 then \<lparr>api = Spawn, binary = path, argv = args, child_env = cenv,
                       stdio = Some [Ignore, if truthy silent then Ignore else Inherit,
                                     if truthy silent then Ignore else Inherit]\<rparr>
                 else \<lparr>api = ExecFile, binary = path, argv = args, child_env = cenv,
                       stdio = None\<rparr>)"
  using assms
  by (cases "getPath w")
     (simp add: execute_run_def Let_def split: sum.splits child_event.splits option.splits
        prod.splits)

lemma execute_run_unresolved:
  assumes "fst (getPath w) = Inl e"
  shows "request (execute_run w args live silent cenv) = None"
    and "promise (execute_run w args live silent cenv) = Rejected (Thrown e)"
    and "uncaught (execute_run w args live silent cenv) = None"
  using assms by (cases "getPath w"; simp add: execute_run_def Let_def)+

lemma execute_request:
  assumes "request (execute w args live silent configFile config) = Some r"
  shows "child_env r = fst (execute_prepare w args configFile (config_or_default config))"
    and "argv r = snd (execute_prepare w args configFile (config_or_default config))"
proof -
  obtain cenv final where prep:
    "execute_prepare w args configFile (config_or_default config) = (cenv, final)"
    by (cases "execute_prepare w args configFile (config_or_default config)")
  have run: "execute w args live silent configFile config = execute_run w final live silent cenv"
    by (simp add: execute_def prep)
  obtain res fx where path: "getPath w = (res, fx)" by (cases "getPath w")
  have both: "child_env r = cenv \<and> argv r = final"
  proof (cases res)
    case (Inl e)
    with path have "fst (getPath w) = Inl e" by simp
    from execute_run_unresolved(1)[OF this, of final live silent cenv] assms run
    show ?thesis by simp
  next
    case (Inr p)
    with path have "fst (getPath w) = Inr p" by simp
    from execute_run_request[OF this, of final live silent cenv] assms run
    show ?thesis by (auto split: if_splits)
  qed
  from both prep
  show "child_env r = fst (execute_prepare w args configFile (config_or_default config))"
    and "argv r = snd (execute_prepare w args configFile (config_or_default config))"
    by simp_all
qed

lemma prepare_snd:
  "snd (execute_prepare w args configFile config) =
     (if truthy (get_prop config ''customHeader'') then args
      else if truthy (get_prop config ''headers'')
        then concat (map (\<lambda>(key, v). [JStr ''--header'', JStr (key @ '':'' @ js_String v)])
                         (Object_entries (get_prop config ''headers''))) @ args
      else args)"
  unfolding execute_prepare_def Let_def by simp

subsection \<open>The environment of the child\<close>

lemma assign_if_apply:
  "assign_if v k e name = (if truthy v \<and> name = k then Some v else e name)"
  by (simp add: assign_if_def)

lemma prepare_fst:
  "fst (execute_prepare w args configFile config) =
     assign_if (get_prop config ''customHeader'') ''CUSTOM_HEADER''
    (assign_if (get_prop config ''vcsRemote'') ''GSOC2_VCS_REMOTE''
    (assign_if (get_prop config ''project'') ''GSOC2_PROJECT''
    (assign_if (get_prop config ''org'') ''GSOC2_ORG''
    (assign_if (get_prop config ''dsn'') ''GSOC2_DSN''
    (assign_if (get_prop config ''apiKey'') ''GSOC2_API_KEY''
    (assign_if (get_prop config ''authToken'') ''GSOC2_AUTH_TOKEN''
    (assign_if (get_prop config ''url'') ''GSOC2_URL''
    (assign_if configFile ''GSOC2_PROPERTIES'' (\<lambda>name. map_option JStr (env w name))))))))))"
  unfolding execute_prepare_def Let_def
  by (simp add: assign_if_def[of "get_prop config ''customHeader''"])

lemma overlay_lookup:
  "map_of (map (\<lambda>(field, variable). (variable, g field))
               (filter (\<lambda>(field, variable). P field) xs)) name
     = map_option (\<lambda>(field, variable). g field)
         (find (\<lambda>(field, variable). name = variable \<and> P field) xs)"
  by (induction xs) auto

lemma spec_child_env_apply:
  "spec_child_env w configFile config name =
     (if truthy configFile \<and> name = ''GSOC2_PROPERTIES'' then Some configFile
      else case find (\<lambda>(field, variable). name = variable \<and> present config field)
                     config_variables of
             Some (field, variable) \<Rightarrow> Some (get_prop config field)
           | None \<Rightarrow> map_option JStr (env w name))"
  by (simp add: spec_child_env_def spec_overlay_def map_add_def overlay_lookup
        split: option.splits)

text \<open>The assignments of the code, one after the other, build the overlaid environment.\<close>

lemma prepare_env:
  "fst (execute_prepare w args configFile config) = spec_child_env w configFile config"
proof (rule ext)
  fix name
  consider "name = ''GSOC2_PROPERTIES''" | "name = ''GSOC2_URL''" | "name = ''GSOC2_AUTH_TOKEN''"
    | "name = ''GSOC2_API_KEY''" | "name = ''GSOC2_DSN''" | "name = ''GSOC2_ORG''"
    | "name = ''GSOC2_PROJECT''" | "name = ''GSOC2_VCS_REMOTE''" | "name = ''CUSTOM_HEADER''"
    | "name \<notin> set (''GSOC2_PROPERTIES'' # map snd config_variables)"
    by (auto simp: config_variables_def)
  then show "fst (execute_prepare w args configFile config) name
               = spec_child_env w configFile config name"
    by cases
      (simp_all add: prepare_fst assign_if_apply spec_child_env_apply config_variables_def
         present_def)
qed

lemma spec_child_env_frame:
  assumes "name \<notin> set (''GSOC2_PROPERTIES'' # map snd config_variables)"
  shows "spec_child_env w configFile config name = map_option JStr (env w name)"
  using assms by (simp add: spec_child_env_apply config_variables_def)

lemma spec_child_env_absent:
  assumes "(field, variable) \<in> set config_variables" and "\<not> present config field"
  shows "spec_child_env w configFile config variable = map_option JStr (env w variable)"
proof -
  from assms(1) have "(field, variable) = (''url'', ''GSOC2_URL'')
      \<or> (field, variable) = (''authToken'', ''GSOC2_AUTH_TOKEN'')
      \<or> (field, variable) = (''apiKey'', ''GSOC2_API_KEY'')
      \<or> (field, variable) = (''dsn'', ''GSOC2_DSN'')
      \<or> (field, variable) = (''org'', ''GSOC2_ORG'')
      \<or> (field, variable) = (''project'', ''GSOC2_PROJECT'')
      \<or> (field, variable) = (''vcsRemote'', ''GSOC2_VCS_REMOTE'')
      \<or> (field, variable) = (''customHeader'', ''CUSTOM_HEADER'')"
    unfolding config_variables_def by simp
  then show ?thesis
    using assms(2)
    by (elim disjE) (simp_all add: spec_child_env_apply config_variables_def)
qed

text \<open>
  C7: for every \<open>config\<close> and \<open>configFile\<close>, the environment that \<open>execute\<close> hands to
  the child is the current process environment overlaid with the configuration-file
  variable (when a configuration file is given) and the dedicated variable of every
  recognized configuration field present in \<open>config\<close> (present meaning that the
  field's value is truthy, as C10 states): every other entry is inherited unchanged,
  and the variable of a field that is not present is inherited unchanged too.
\<close>

theorem execute_child_env:
  assumes "request (execute w args live silent configFile config) = Some r"
  shows "child_env r = spec_child_env w configFile (config_or_default config)
       \<and> (\<forall>name. name \<notin> set (''GSOC2_PROPERTIES'' # map snd config_variables)
             \<longrightarrow> child_env r name = map_option JStr (env w name))
       \<and> (\<forall>field variable. (field, variable) \<in> set config_variables
             \<longrightarrow> \<not> present (config_or_default config) field
             \<longrightarrow> child_env r variable = map_option JStr (env w variable))"
proof -
  from execute_request(1)[OF assms]
  have eq: "child_env r = spec_child_env w configFile (config_or_default config)"
    by (simp add: prepare_env)
  show ?thesis
    unfolding eq using spec_child_env_frame spec_child_env_absent by simp
qed

theorem execute_child_env_witness:
  "\<exists>r. request (execute example_world [] JNull (JBool False) JUndefined (Some example_config))
          = Some r
       \<and> child_env r = spec_child_env example_world JUndefined example_config
       \<and> child_env r ''GSOC2_URL'' = Some (JStr ''https://x'')
       \<and> child_env r ''GSOC2_AUTH_TOKEN'' = Some (JStr ''t'')
       \<and> child_env r ''GSOC2_DSN'' = None
       \<and> child_env r ''PATH'' = Some (JStr ''/usr/bin'')"
proof -
  have path: "fst (getPath example_world)
                = Inr ''/app/node_modules/@gsoc2/cli-linux-x64/bin/gsoc2-cli''"
    by (simp add: example_world_path)
  obtain cenv final where prep:
    "execute_prepare example_world [] JUndefined (config_or_default (Some example_config))
       = (cenv, final)"
    by (cases "execute_prepare example_world [] JUndefined (config_or_default (Some example_config))")
  from execute_run_request[OF path, of final JNull "JBool False" cenv]
  obtain r where r:
    "request (execute example_world [] JNull (JBool False) JUndefined (Some example_config)) = Some r"
    by (simp add: execute_def prep)
  from execute_child_env[OF r]
  have eq: "child_env r = spec_child_env example_world JUndefined example_config"
    by (simp add: config_or_default_def)
  have "spec_child_env example_world JUndefined example_config ''GSOC2_URL'' = Some (JStr ''https://x'')"
    and "spec_child_env example_world JUndefined example_config ''GSOC2_AUTH_TOKEN'' = Some (JStr ''t'')"
    and "spec_child_env example_world JUndefined example_config ''GSOC2_DSN'' = None"
    and "spec_child_env example_world JUndefined example_config ''PATH'' = Some (JStr ''/usr/bin'')"
    by (simp_all add: spec_child_env_apply config_variables_def present_def get_prop_def
          example_config_def example_world_def)
  with r eq show ?thesis by simp
qed

subsection \<open>Headers\<close>

lemma header_tokens:
  "concat (map (\<lambda>(key, v). [JStr ''--header'', JStr (key @ '':'' @ js_String v)]) hs)
     = spec_header_tokens hs"
  by (induction hs rule: spec_header_tokens.induct) simp_all

lemma prepare_header_tokens:
  "snd (execute_prepare w args configFile config) =
     (if truthy (get_prop config ''customHeader'') then args
      else if truthy (get_prop config ''headers'')
        then spec_header_tokens (Object_entries (get_prop config ''headers'')) @ args
      else args)"
  unfolding prepare_snd header_tokens by (rule refl)

text \<open>
  C8: in \<open>execute\<close>, when the custom-header field is present in \<open>config\<close> it is placed in
  its environment variable and the argument list is the caller's, whatever the header
  mapping holds; when the custom-header field is not present and the header mapping is
  an object, every entry contributes the two tokens \<open>--header\<close> and \<open>key:value\<close>, in the
  order of the mapping, and these tokens come before the caller's arguments.
\<close>

theorem execute_headers:
  assumes "request (execute w args live silent configFile config) = Some r"
  shows "(present (config_or_default config) ''customHeader'' \<longrightarrow>
            child_env r ''CUSTOM_HEADER'' = Some (get_prop (config_or_default config) ''customHeader'')
            \<and> argv r = args)
       \<and> (\<not> present (config_or_default config) ''customHeader'' \<longrightarrow>
            get_prop (config_or_default config) ''headers'' = JObj hs \<longrightarrow>
            argv r = spec_header_tokens hs @ args
            \<and> child_env r ''CUSTOM_HEADER'' = map_option JStr (env w ''CUSTOM_HEADER''))"
  using execute_request[OF assms]
  by (simp add: prepare_header_tokens prepare_fst assign_if_apply present_def Object_entries_def)

theorem execute_headers_witness:
  "(\<exists>r. request (execute example_world [JStr ''info''] JNull (JBool False) JUndefined
                   (Some custom_header_config)) = Some r
        \<and> present custom_header_config ''customHeader''
        \<and> child_env r ''CUSTOM_HEADER'' = Some (JStr ''X-C: 3'')
        \<and> argv r = [JStr ''info''])
   \<and> (\<exists>r. request (execute example_world [JStr ''info''] JNull (JBool False) JUndefined
                     (Some headers_config)) = Some r
        \<and> \<not> present headers_config ''customHeader''
        \<and> argv r = [JStr ''--header'', JStr ''X-A:1'', JStr ''--header'', JStr ''X-B:2'',
                     JStr ''info''])"
proof -
  have path: "fst (getPath example_world)
                = Inr ''/app/node_modules/@gsoc2/cli-linux-x64/bin/gsoc2-cli''"
    by (simp add: example_world_path)
  have custom: "present custom_header_config ''customHeader''"
    and custom_value: "get_prop custom_header_config ''customHeader'' = JStr ''X-C: 3''"
    and no_custom: "\<not> present headers_config ''customHeader''"
    and mapping: "get_prop headers_config ''headers'' = JObj [(''X-A'', JStr ''1''), (''X-B'', JStr ''2'')]"
    by (simp_all add: present_def get_prop_def custom_header_config_def headers_config_def)
  obtain cenv1 final1 where prep1:
    "execute_prepare example_world [JStr ''info''] JUndefined
       (config_or_default (Some custom_header_config)) = (cenv1, final1)"
    by (cases "execute_prepare example_world [JStr ''info''] JUndefined
                 (config_or_default (Some custom_header_config))")
  from execute_run_request[OF path, of final1 JNull "JBool False" cenv1]
  obtain r1 where r1:
    "request (execute example_world [JStr ''info''] JNull (JBool False) JUndefined
                (Some custom_header_config)) = Some r1"
    by (simp add: execute_def prep1)
  obtain cenv2 final2 where prep2:
    "execute_prepare example_world [JStr ''info''] JUndefined
       (config_or_default (Some headers_config)) = (cenv2, final2)"
    by (cases "execute_prepare example_world [JStr ''info''] JUndefined
                 (config_or_default (Some headers_config))")
  from execute_run_request[OF path, of final2 JNull "JBool False" cenv2]
  obtain r2 where r2:
    "request (execute example_world [JStr ''info''] JNull (JBool False) JUndefined
                (Some headers_config)) = Some r2"
    by (simp add: execute_def prep2)
  from execute_headers[OF r1] custom custom_value
  have first: "child_env r1 ''CUSTOM_HEADER'' = Some (JStr ''X-C: 3'') \<and> argv r1 = [JStr ''info'']"
    by (simp add: config_or_default_def)
  from execute_headers[OF r2, of "[(''X-A'', JStr ''1''), (''X-B'', JStr ''2'')]"] no_custom mapping
  have second: "argv r2 = [JStr ''--header'', JStr ''X-A:1'', JStr ''--header'', JStr ''X-B:2'',
                           JStr ''info'']"
    by (simp add: config_or_default_def)
  from r1 r2 custom no_custom first second show ?thesis by simp
qed

subsection \<open>Falsy configuration values\<close>

lemma prepare_cong:
  assumes "\<And>f. get_prop c1 f = get_prop c2 f
                \<or> \<not> truthy (get_prop c1 f) \<and> \<not> truthy (get_prop c2 f)"
  shows "execute_prepare w args configFile c1 = execute_prepare w args configFile c2"
proof -
  have assign: "assign_if (get_prop c1 f) k e = assign_if (get_prop c2 f) k e" for f k e
    using assms[of f] by (auto simp: assign_if_def)
  have custom: "get_prop c1 ''customHeader'' = get_prop c2 ''customHeader''
                \<or> \<not> truthy (get_prop c1 ''customHeader'') \<and> \<not> truthy (get_prop c2 ''customHeader'')"
    by (rule assms)
  have headers: "get_prop c1 ''headers'' = get_prop c2 ''headers''
                \<or> \<not> truthy (get_prop c1 ''headers'') \<and> \<not> truthy (get_prop c2 ''headers'')"
    by (rule assms)
  show ?thesis
    unfolding execute_prepare_def assign
    using custom headers by (auto simp: Let_def)
qed

lemma prepare_falsy_field:
  assumes "\<not> truthy v"
  shows "execute_prepare w args configFile (config(field \<mapsto> v))
           = execute_prepare w args configFile (config(field := None))"
  by (rule prepare_cong) (simp add: get_prop_def assms)

lemma prepare_falsy_configFile:
  assumes "\<not> truthy configFile"
  shows "execute_prepare w args configFile config = execute_prepare w args JUndefined config"
  using assms by (simp add: execute_prepare_def assign_if_def)

text \<open>
  C10: presence of a configuration field is decided by truthiness. For every
  configuration in which a field is set to a falsy value (the empty string, \<open>false\<close>,
  0, \<open>null\<close>, \<open>undefined\<close>), \<open>execute\<close> behaves exactly as for the configuration without
  that field, and the dedicated variable of a recognized field is not placed in the
  environment of the child: it keeps its inherited value. Likewise a falsy
  \<open>configFile\<close>, such as the empty string, acts as an omitted one and the
  configuration-file variable keeps its inherited value.
\<close>

theorem execute_falsy_as_absent:
  "(\<not> truthy v \<longrightarrow>
      execute w args live silent configFile (Some (config(field \<mapsto> v)))
        = execute w args live silent configFile (Some (config(field := None))))
   \<and> (\<not> truthy v \<longrightarrow> (field, variable) \<in> set config_variables \<longrightarrow>
      request (execute w args live silent configFile (Some (config(field \<mapsto> v)))) = Some r \<longrightarrow>
      child_env r variable = map_option JStr (env w variable))
   \<and> (\<not> truthy configFile \<longrightarrow>
      execute w args live silent configFile config'
        = execute w args live silent JUndefined config')
   \<and> (\<not> truthy configFile \<longrightarrow>
      request (execute w args live silent configFile config') = Some r' \<longrightarrow>
      child_env r' ''GSOC2_PROPERTIES'' = map_option JStr (env w ''GSOC2_PROPERTIES''))"
proof -
  have field_absent: "execute w args live silent configFile (Some (config(field \<mapsto> v)))
        = execute w args live silent configFile (Some (config(field := None)))"
    if "\<not> truthy v"
    using prepare_falsy_field[OF that, of w args configFile config field]
    by (simp add: execute_def config_or_default_def)
  have field_variable: "child_env r variable = map_option JStr (env w variable)"
    if "\<not> truthy v" "(field, variable) \<in> set config_variables"
       "request (execute w args live silent configFile (Some (config(field \<mapsto> v)))) = Some r"
  proof -
    from that(1) have "\<not> present (config(field \<mapsto> v)) field"
      by (simp add: present_def get_prop_def)
    from spec_child_env_absent[OF that(2) this, of w configFile] execute_request(1)[OF that(3)]
    show ?thesis by (simp add: prepare_env config_or_default_def)
  qed
  have file_absent: "execute w args live silent configFile config'
        = execute w args live silent JUndefined config'"
    if "\<not> truthy configFile"
    using prepare_falsy_configFile[OF that, of w args "config_or_default config'"]
    by (simp add: execute_def)
  have file_variable: "child_env r' ''GSOC2_PROPERTIES'' = map_option JStr (env w ''GSOC2_PROPERTIES'')"
    if "\<not> truthy configFile" "request (execute w args live silent configFile config') = Some r'"
    using execute_request(1)[OF that(2)] that(1)
    by (simp add: prepare_fst assign_if_apply)
  from field_absent field_variable file_absent file_variable show ?thesis by simp
qed

theorem execute_falsy_as_absent_witness:
  "\<not> truthy (JStr []) \<and> \<not> truthy (JBool False) \<and> \<not> truthy (JNum 0) \<and> \<not> truthy JNull
   \<and> execute example_world [] JNull (JBool False) (JStr []) (Some (example_config(''dsn'' \<mapsto> JNum 0)))
       = execute example_world [] JNull (JBool False) (JStr []) (Some (example_config(''dsn'' := None)))
   \<and> execute example_world [] JNull (JBool False) (JStr []) (Some example_config)
       = execute example_world [] JNull (JBool False) JUndefined (Some example_config)
   \<and> (''dsn'', ''GSOC2_DSN'') \<in> set config_variables
   \<and> (\<exists>r. request (execute example_world [] JNull (JBool False) (JStr [])
                     (Some (example_config(''dsn'' \<mapsto> JNum 0)))) = Some r
          \<and> child_env r ''GSOC2_DSN'' = None
          \<and> child_env r ''GSOC2_PROPERTIES'' = None)"
proof -
  have zero: "\<not> truthy (JNum 0)" and empty: "\<not> truthy (JStr [])" by simp_all
  have row: "(''dsn'', ''GSOC2_DSN'') \<in> set config_variables"
    by (simp add: config_variables_def)
  have path: "fst (getPath example_world)
                = Inr ''/app/node_modules/@gsoc2/cli-linux-x64/bin/gsoc2-cli''"
    by (simp add: example_world_path)
  obtain cenv final where prep:
    "execute_prepare example_world [] (JStr [])
       (config_or_default (Some (example_config(''dsn'' \<mapsto> JNum 0)))) = (cenv, final)"
    by (cases "execute_prepare example_world [] (JStr [])
                 (config_or_default (Some (example_config(''dsn'' \<mapsto> JNum 0))))")
  from execute_run_request[OF path, of final JNull "JBool False" cenv]
  obtain r where r:
    "request (execute example_world [] JNull (JBool False) (JStr [])
                (Some (example_config(''dsn'' \<mapsto> JNum 0)))) = Some r"
    by (simp add: execute_def prep)
  note inst = execute_falsy_as_absent[of "JNum 0" example_world "[]" JNull "JBool False" "JStr []"
                example_config "''dsn''" "''GSOC2_DSN''" r
                "Some (example_config(''dsn'' \<mapsto> JNum 0))" r]
  have inherited: "env example_world ''GSOC2_DSN'' = None"
    "env example_world ''GSOC2_PROPERTIES'' = None"
    by (simp_all add: example_world_def)
  from inst zero empty row r inherited
  have "child_env r ''GSOC2_DSN'' = None" and "child_env r ''GSOC2_PROPERTIES'' = None"
    by simp_all
  moreover from inst zero
  have "execute example_world [] JNull (JBool False) (JStr []) (Some (example_config(''dsn'' \<mapsto> JNum 0)))
       = execute example_world [] JNull (JBool False) (JStr []) (Some (example_config(''dsn'' := None)))"
    by simp
  moreover from execute_falsy_as_absent[of "JNum 0" example_world "[]" JNull "JBool False" "JStr []"
                example_config "''dsn''" "''GSOC2_DSN''" r "Some example_config" r] empty
  have "execute example_world [] JNull (JBool False) (JStr []) (Some example_config)
       = execute example_world [] JNull (JBool False) JUndefined (Some example_config)"
    by simp
  ultimately show ?thesis using row r by simp
qed

subsection \<open>The promise returned\<close>

lemma prepare_final_args:
  "snd (execute_prepare w args configFile config) = spec_final_args args config"
  by (simp add: prepare_header_tokens spec_final_args_def present_def)

lemma execFile_settles:
  assumes "binary call = path"
  shows "(case childProcess_execFile decode call outcome of
            Inl thrown \<Rightarrow> Rejected thrown
          | Inr (Some err, stdout) \<Rightarrow> Rejected (ProcessError err)
          | Inr (None, stdout) \<Rightarrow> Resolved (JStr stdout))
         = spec_buffered_promise decode path outcome"
  using assms
  by (cases outcome)
     (auto simp: childProcess_execFile_def spawn_throws_def spec_buffered_promise_def
        async_start_errors_def)

lemma spawn_settles:
  assumes "binary pid = path"
  shows "(case childProcess_spawn pid outcome of
            Inl thrown \<Rightarrow> Rejected thrown
          | Inr ExitEvent \<Rightarrow> Resolved JUndefined
          | Inr (ErrorEvent err) \<Rightarrow> Pending)
         = spec_live_promise path outcome"
    and "(case childProcess_spawn pid outcome of
            Inl thrown \<Rightarrow> None
          | Inr ExitEvent \<Rightarrow> None
          | Inr (ErrorEvent err) \<Rightarrow> Some (ProcessError err))
         = spec_live_uncaught path outcome"
  using assms
  by (cases outcome;
      auto simp: childProcess_spawn_def spawn_throws_def spec_live_promise_def
        spec_live_uncaught_def async_start_errors_def)+

lemma execute_run_buffered:
  assumes "live \<noteq> JBool True" and "fst (getPath w) = Inr path"
  shows "promise (execute_run w args live silent cenv) =
           spec_buffered_promise (utf8_text w) path
             (os_run w \<lparr>api = ExecFile, binary = path, argv = args, child_env = cenv,
                         stdio = None\<rparr>)"
    and "uncaught (execute_run w args live silent cenv) = None"
proof -
  let ?call = "\<lparr>api = ExecFile, binary = path, argv = args, child_env = cenv, stdio = None\<rparr>"
  obtain fx where path: "getPath w = (Inr path, fx)"
    using assms(2) by (cases "getPath w") simp
  have "promise (execute_run w args live silent cenv) =
          (case childProcess_execFile (utf8_text w) ?call (os_run w ?call) of
             Inl thrown \<Rightarrow> Rejected thrown
           | Inr (Some err, stdout) \<Rightarrow> Rejected (ProcessError err)
           | Inr (None, stdout) \<Rightarrow> Resolved (JStr stdout))"
    using assms(1)
    by (simp add: execute_run_def path Let_def split: sum.splits option.splits prod.splits)
  also have "\<dots> = spec_buffered_promise (utf8_text w) path (os_run w ?call)"
    by (rule execFile_settles) simp
  finally show "promise (execute_run w args live silent cenv)
                  = spec_buffered_promise (utf8_text w) path (os_run w ?call)" .
  show "uncaught (execute_run w args live silent cenv) = None"
    using assms(1)
    by (simp add: execute_run_def path Let_def split: sum.splits option.splits prod.splits)
qed

lemma execute_run_live:
  assumes "fst (getPath w) = Inr path"
  shows "promise (execute_run w args (JBool True) silent cenv) =
           spec_live_promise path
             (os_run w \<lparr>api = Spawn, binary = path, argv = args, child_env = cenv,
                       stdio = Some [Ignore, if truthy silent then Ignore else Inherit,
                                     if truthy silent then Ignore else Inherit]\<rparr>)"
    and "uncaught (execute_run w args (JBool True) silent cenv) =
           spec_live_uncaught path
             (os_run w \<lparr>api = Spawn, binary = path, argv = args, child_env = cenv,
                       stdio = Some [Ignore, if truthy silent then Ignore else Inherit,
                                     if truthy silent then Ignore else Inherit]\<rparr>)"
proof -
  let ?pid = "\<lparr>api = Spawn, binary = path, argv = args, child_env = cenv,
                stdio = Some [Ignore, if truthy silent then Ignore else Inherit,
                              if truthy silent then Ignore else Inherit]\<rparr>"
  obtain fx where path: "getPath w = (Inr path, fx)"
    using assms by (cases "getPath w") simp
  have "promise (execute_run w args (JBool True) silent cenv) =
          (case childProcess_spawn ?pid (os_run w ?pid) of
             Inl thrown \<Rightarrow> Rejected thrown
           | Inr ExitEvent \<Rightarrow> Resolved JUndefined
           | Inr (ErrorEvent err) \<Rightarrow> Pending)"
    by (simp add: execute_run_def path Let_def split: sum.splits child_event.splits)
  also have "\<dots> = spec_live_promise path (os_run w ?pid)"
    by (rule spawn_settles(1)) simp
  finally show "promise (execute_run w args (JBool True) silent cenv)
                  = spec_live_promise path (os_run w ?pid)" .
  have "uncaught (execute_run w args (JBool True) silent cenv) =
          (case childProcess_spawn ?pid (os_run w ?pid) of
             Inl thrown \<Rightarrow> None
           | Inr ExitEvent \<Rightarrow> None
           | Inr (ErrorEvent err) \<Rightarrow> Some (ProcessError err))"
    by (simp add: execute_run_def path Let_def split: sum.splits child_event.splits)
  also have "\<dots> = spec_live_uncaught path (os_run w ?pid)"
    by (rule spawn_settles(2)) simp
  finally show "uncaught (execute_run w args (JBool True) silent cenv)
                  = spec_live_uncaught path (os_run w ?pid)" .
qed

lemma unsupported_world_path:
  "getPath unsupported_world = (Inl (Error unsupported_platform_message), [])"
  by (simp add: getPath_def getBinaryPath_def unsupported_world_def example_world_def
        truthy_env_def getDistributionForThisPlatform_def throwUnsupportedPlatformError_def)

lemma big_output_world_path:
  "fst (getPath big_output_world) = Inr ''/app/node_modules/@gsoc2/cli-linux-x64/bin/gsoc2-cli''"
  by (simp add: getPath_def getBinaryPath_def big_output_world_def example_world_def
        truthy_env_def getDistributionForThisPlatform_def getFallbackBinaryPath_def)

lemma no_start_world_path:
  "fst (getPath no_start_world) = Inr ''/app/node_modules/@gsoc2/cli-linux-x64/bin/gsoc2-cli''"
  by (simp add: getPath_def getBinaryPath_def no_start_world_def example_world_def
        truthy_env_def getDistributionForThisPlatform_def getFallbackBinaryPath_def)

lemma execute_without_config:
  "execute w args live silent JUndefined None
     = execute_run w args live silent (\<lambda>name. map_option JStr (env w name))"
  by (simp add: execute_def execute_prepare_def config_or_default_def get_prop_def
        assign_if_def)

text \<open>
  C2 as the specification states it, at three buffered calls. The call into
  \<open>child_process\<close> passes no \<open>stdio\<close> option, so the standard input of the child is a
  pipe and is not closed. A child that writes one byte more than \<open>maxBuffer\<close> and would
  leave with status 0 makes the promise reject. On an unsupported platform no binary
  is run at all: the promise rejects with the error of the path resolution.
\<close>

theorem execute_buffered_stdin_counterexample:
  "map_option stdin_closed
     (request (execute example_world [JStr ''--version''] (JBool False) (JBool False) JUndefined None))
     = Some False
   \<and> os_run big_output_world
        \<lparr>api = ExecFile, binary = ''/app/node_modules/@gsoc2/cli-linux-x64/bin/gsoc2-cli'',
         argv = [JStr ''--version''],
         child_env = (\<lambda>name. map_option JStr (env big_output_world name)), stdio = None\<rparr>
       = Exited 0 (replicate (maxBuffer + 1) (CHR ''a'')) []
   \<and> promise (execute big_output_world [JStr ''--version''] (JBool False) (JBool False)
                 JUndefined None)
       = Rejected (ProcessError (CodeName ''ERR_CHILD_PROCESS_STDIO_MAXBUFFER''))
   \<and> request (execute unsupported_world [JStr ''--version''] (JBool False) (JBool False)
                 JUndefined None) = None
   \<and> promise (execute unsupported_world [JStr ''--version''] (JBool False) (JBool False)
                 JUndefined None)
       = Rejected (Thrown (Error unsupported_platform_message))"
proof -
  have live: "JBool False \<noteq> JBool True" by simp
  have path: "fst (getPath example_world)
                = Inr ''/app/node_modules/@gsoc2/cli-linux-x64/bin/gsoc2-cli''"
    by (simp add: example_world_path)
  have stdin: "map_option stdin_closed
     (request (execute example_world [JStr ''--version''] (JBool False) (JBool False) JUndefined None))
     = Some False"
    unfolding execute_without_config execute_run_request[OF path]
    by (simp add: stdin_closed_def)
  have run: "os_run big_output_world r = Exited 0 (replicate (maxBuffer + 1) (CHR ''a'')) []" for r
    by (simp add: big_output_world_def)
  have big: "promise (execute big_output_world [JStr ''--version''] (JBool False) (JBool False)
                 JUndefined None)
       = Rejected (ProcessError (CodeName ''ERR_CHILD_PROCESS_STDIO_MAXBUFFER''))"
    unfolding execute_without_config execute_run_buffered(1)[OF live big_output_world_path] run
    by (simp add: spec_buffered_promise_def big_output_world_def example_world_def)
  have unresolved: "fst (getPath unsupported_world) = Inl (Error unsupported_platform_message)"
    by (simp add: unsupported_world_path)
  from stdin run big execute_run_unresolved(1,2)[OF unresolved] show ?thesis
    by (simp add: execute_without_config)
qed

text \<open>
  C2 (amended): for every argument list, in buffered mode (\<open>live\<close> falsy), \<open>execute\<close>
  first resolves the path of the binary; when that fails, the promise rejects with the
  error of the resolution and nothing is run. Otherwise it runs the binary through
  \<open>execFile\<close>, with the caller's arguments (after the header tokens, if any) and the
  environment built from the configuration, with no \<open>stdio\<close> option, so that the
  standard input is a pipe (not closed), and with the default \<open>maxBuffer\<close> of
  1024 * 1024 bytes. When the process exits with status 0 having written no more than
  that to its standard output and to its standard error, the promise resolves with the
  captured standard output, decoded as UTF-8 and otherwise verbatim (not trimmed,
  newlines preserved). The promise rejects with the process error
  carrying the exit status when the process exits with a nonzero status (a process
  exiting with status 2 causes a rejection carrying 2); with the error carrying the
  signal when the process is killed by a signal; with the error carrying the error
  name when the process cannot be started; with \<open>ERR_CHILD_PROCESS_STDIO_MAXBUFFER\<close> when
  the process writes more than \<open>maxBuffer\<close>; and with the error thrown by the library
  when the path is empty or the arguments are refused. Nothing is thrown outside the
  promise.
\<close>

theorem execute_buffered:
  assumes "\<not> truthy live"
  shows "(case fst (getPath w) of
            Inl e \<Rightarrow>
              request (execute w args live silent configFile config) = None
              \<and> promise (execute w args live silent configFile config) = Rejected (Thrown e)
          | Inr path \<Rightarrow>
              (\<exists>call. request (execute w args live silent configFile config) = Some call
                 \<and> api call = ExecFile \<and> binary call = path \<and> stdio call = None
                 \<and> argv call = spec_final_args args (config_or_default config)
                 \<and> child_env call = spec_child_env w configFile (config_or_default config)
                 \<and> promise (execute w args live silent configFile config)
                     = spec_buffered_promise (utf8_text w) path (os_run w call)))
         \<and> uncaught (execute w args live silent configFile config) = None"
proof -
  from assms have live: "live \<noteq> JBool True" by auto
  obtain cenv final where prep:
    "execute_prepare w args configFile (config_or_default config) = (cenv, final)"
    by (cases "execute_prepare w args configFile (config_or_default config)")
  have run: "execute w args live silent configFile config = execute_run w final live silent cenv"
    by (simp add: execute_def prep)
  from prep have cenv: "cenv = spec_child_env w configFile (config_or_default config)"
    using prepare_env[of w args configFile "config_or_default config"] by simp
  from prep have final: "final = spec_final_args args (config_or_default config)"
    using prepare_final_args[of w args configFile "config_or_default config"] by simp
  show ?thesis
  proof (cases "fst (getPath w)")
    case (Inl e)
    from execute_run_unresolved[OF Inl, of final live silent cenv] Inl show ?thesis
      by (simp add: run)
  next
    case (Inr path)
    from execute_run_request[OF Inr, of final live silent cenv]
      execute_run_buffered[OF live Inr, of final silent cenv] live Inr cenv final
    show ?thesis by (simp add: run)
  qed
qed

theorem execute_buffered_witness:
  "\<not> truthy JNull
   \<and> fst (getPath example_world) = Inr ''/app/node_modules/@gsoc2/cli-linux-x64/bin/gsoc2-cli''
   \<and> promise (execute example_world [JStr ''--version''] JNull (JBool False) JUndefined None)
       = Resolved (JStr (''gsoc2-cli 2.0.0'' @ newline))
   \<and> promise (execute example_world [JStr ''releases''] JNull (JBool False) JUndefined None)
       = Rejected (ProcessError (Status 2))
   \<and> uncaught (execute example_world [JStr ''releases''] JNull (JBool False) JUndefined None)
       = None"
proof -
  have falsy: "\<not> truthy JNull" by simp
  have path: "fst (getPath example_world)
                = Inr ''/app/node_modules/@gsoc2/cli-linux-x64/bin/gsoc2-cli''"
    by (simp add: example_world_path)
  have no_headers: "spec_final_args args (config_or_default None) = args" for args
    by (simp add: spec_final_args_def present_def config_or_default_def get_prop_def)
  have version: "promise (execute example_world [JStr ''--version''] JNull (JBool False) JUndefined None)
       = Resolved (JStr (''gsoc2-cli 2.0.0'' @ newline))"
  proof -
    from execute_buffered[OF falsy, of example_world "[JStr ''--version'']" "JBool False"
           JUndefined None] path
    obtain call where args: "argv call = spec_final_args [JStr ''--version''] (config_or_default None)"
      and settled:
        "promise (execute example_world [JStr ''--version''] JNull (JBool False) JUndefined None)
           = spec_buffered_promise (utf8_text example_world)
               ''/app/node_modules/@gsoc2/cli-linux-x64/bin/gsoc2-cli''
               (os_run example_world call)"
      by auto
    from args have "os_run example_world call = Exited 0 (''gsoc2-cli 2.0.0'' @ newline) []"
      by (simp add: no_headers example_world_def)
    with settled show ?thesis
      by (simp add: spec_buffered_promise_def maxBuffer_def newline_def example_world_def)
  qed
  have releases: "promise (execute example_world [JStr ''releases''] JNull (JBool False) JUndefined None)
       = Rejected (ProcessError (Status 2))"
  proof -
    from execute_buffered[OF falsy, of example_world "[JStr ''releases'']" "JBool False"
           JUndefined None] path
    obtain call where args: "argv call = spec_final_args [JStr ''releases''] (config_or_default None)"
      and settled:
        "promise (execute example_world [JStr ''releases''] JNull (JBool False) JUndefined None)
           = spec_buffered_promise (utf8_text example_world)
               ''/app/node_modules/@gsoc2/cli-linux-x64/bin/gsoc2-cli''
               (os_run example_world call)"
      by auto
    from args have "os_run example_world call = Exited 2 [] []"
      by (simp add: no_headers example_world_def)
    with settled show ?thesis
      by (simp add: spec_buffered_promise_def maxBuffer_def example_world_def)
  qed
  from execute_buffered[OF falsy, of example_world "[JStr ''releases'']" "JBool False"
         JUndefined None]
  have quiet: "uncaught (execute example_world [JStr ''releases''] JNull (JBool False)
                           JUndefined None) = None"
    by simp
  from falsy path version releases quiet show ?thesis by simp
qed

text \<open>
  C3 as the specification states it, at four calls. With the truthy value 1 for
  \<open>live\<close> the call is buffered, and the promise rejects with the exit status 2 of the
  process. With \<open>live\<close> true and a binary that the operating system cannot start
  because of \<open>E2BIG\<close>, \<open>spawn\<close> throws and the promise rejects. With \<open>live\<close> true on an
  unsupported platform, or with the empty string as substituted path, nothing is
  spawned and the promise rejects.
\<close>

theorem execute_truthy_live_counterexample:
  "truthy (JNum 1)
   \<and> map_option api (request (execute example_world [JStr ''releases''] (JNum 1) (JBool False)
                                JUndefined None)) = Some ExecFile
   \<and> promise (execute example_world [JStr ''releases''] (JNum 1) (JBool False) JUndefined None)
       = Rejected (ProcessError (Status 2))
   \<and> promise (execute no_start_world [JStr ''releases''] (JBool True) (JBool False)
                 JUndefined None)
       = Rejected (ProcessError (CodeName ''E2BIG''))
   \<and> promise (execute unsupported_world [JStr ''releases''] (JBool True) (JBool False)
                 JUndefined None)
       = Rejected (Thrown (Error unsupported_platform_message))
   \<and> promise (execute (mockBinaryPath (Some []) example_world) [JStr ''releases''] (JBool True)
                 (JBool False) JUndefined None)
       = Rejected (Thrown (TypeError ''ERR_INVALID_ARG_VALUE''))"
proof -
  have one: "JNum 1 \<noteq> JBool True" by simp
  have path: "fst (getPath example_world)
                = Inr ''/app/node_modules/@gsoc2/cli-linux-x64/bin/gsoc2-cli''"
    by (simp add: example_world_path)
  have run: "os_run example_world
               \<lparr>api = ExecFile, binary = b, argv = [JStr ''releases''], child_env = e,
                stdio = None\<rparr> = Exited 2 [] []" for b e
    by (simp add: example_world_def)
  have buffered: "promise (execute example_world [JStr ''releases''] (JNum 1) (JBool False)
                    JUndefined None) = Rejected (ProcessError (Status 2))"
    unfolding execute_without_config execute_run_buffered(1)[OF one path] run
    by (simp add: spec_buffered_promise_def maxBuffer_def example_world_def)
  have call: "map_option api (request (execute example_world [JStr ''releases''] (JNum 1)
                (JBool False) JUndefined None)) = Some ExecFile"
    unfolding execute_without_config execute_run_request[OF path] by simp
  have no_start: "os_run no_start_world r = StartFailed ''E2BIG''" for r
    by (simp add: no_start_world_def)
  have thrown: "promise (execute no_start_world [JStr ''releases''] (JBool True) (JBool False)
                 JUndefined None) = Rejected (ProcessError (CodeName ''E2BIG''))"
    unfolding execute_without_config execute_run_live(1)[OF no_start_world_path] no_start
    by (simp add: spec_live_promise_def)
  have unresolved: "fst (getPath unsupported_world) = Inl (Error unsupported_platform_message)"
    by (simp add: unsupported_world_path)
  have empty: "fst (getPath (mockBinaryPath (Some []) example_world)) = Inr []"
    by (simp add: getPath_def mockBinaryPath_def)
  have refused: "promise (execute (mockBinaryPath (Some []) example_world) [JStr ''releases'']
                   (JBool True) (JBool False) JUndefined None)
       = Rejected (Thrown (TypeError ''ERR_INVALID_ARG_VALUE''))"
    unfolding execute_without_config execute_run_live(1)[OF empty]
    by (simp add: spec_live_promise_def)
  from buffered call thrown refused execute_run_unresolved(2)[OF unresolved] show ?thesis
    by (simp add: execute_without_config)
qed

text \<open>
  C3 (amended): for every argument list, when \<open>live\<close> is the boolean \<open>true\<close>, \<open>execute\<close>
  first resolves the path of the binary; when that fails, the promise rejects with the
  error of the resolution and nothing is spawned. Otherwise it spawns the binary, with
  the caller's arguments (after the header tokens, if any) and the environment built
  from the configuration, with standard input closed and with standard output and
  standard error inherited when \<open>silent\<close> is falsy and discarded when \<open>silent\<close> is
  truthy. Once the process has exited, with whatever exit status or by a signal, the
  promise resolves with no value. When the process cannot be started, the promise is
  never settled and the error is thrown in the caller's process if the error is one of
  \<open>EACCES\<close>, \<open>EAGAIN\<close>, \<open>EMFILE\<close>, \<open>ENFILE\<close> and \<open>ENOENT\<close>, and the promise rejects with the
  error for any other; the promise also rejects when the path is empty or the library
  refuses the arguments.
\<close>

theorem execute_live:
  "(case fst (getPath w) of
      Inl e \<Rightarrow>
        request (execute w args (JBool True) silent configFile config) = None
        \<and> promise (execute w args (JBool True) silent configFile config) = Rejected (Thrown e)
        \<and> uncaught (execute w args (JBool True) silent configFile config) = None
    | Inr path \<Rightarrow>
        (\<exists>pid. request (execute w args (JBool True) silent configFile config) = Some pid
           \<and> api pid = Spawn \<and> binary pid = path
           \<and> stdio pid = Some (if truthy silent then [Ignore, Ignore, Ignore]
                                else [Ignore, Inherit, Inherit])
           \<and> argv pid = spec_final_args args (config_or_default config)
           \<and> child_env pid = spec_child_env w configFile (config_or_default config)
           \<and> promise (execute w args (JBool True) silent configFile config)
               = spec_live_promise path (os_run w pid)
           \<and> uncaught (execute w args (JBool True) silent configFile config)
               = spec_live_uncaught path (os_run w pid)))"
proof -
  obtain cenv final where prep:
    "execute_prepare w args configFile (config_or_default config) = (cenv, final)"
    by (cases "execute_prepare w args configFile (config_or_default config)")
  have run: "execute w args (JBool True) silent configFile config
               = execute_run w final (JBool True) silent cenv"
    by (simp add: execute_def prep)
  from prep have cenv: "cenv = spec_child_env w configFile (config_or_default config)"
    using prepare_env[of w args configFile "config_or_default config"] by simp
  from prep have final: "final = spec_final_args args (config_or_default config)"
    using prepare_final_args[of w args configFile "config_or_default config"] by simp
  show ?thesis
  proof (cases "fst (getPath w)")
    case (Inl e)
    from execute_run_unresolved[OF Inl, of final "JBool True" silent cenv] Inl show ?thesis
      by (simp add: run)
  next
    case (Inr path)
    from execute_run_request[OF Inr, of final "JBool True" silent cenv]
      execute_run_live[OF Inr, of final silent cenv] Inr cenv final
    show ?thesis by (simp add: run)
  qed
qed

theorem execute_live_witness:
  "fst (getPath example_world) = Inr ''/app/node_modules/@gsoc2/cli-linux-x64/bin/gsoc2-cli''
   \<and> map_option stdio (request (execute example_world [JStr ''releases''] (JBool True) (JBool True)
                                  JUndefined None)) = Some (Some [Ignore, Ignore, Ignore])
   \<and> promise (execute example_world [JStr ''releases''] (JBool True) (JBool True) JUndefined None)
       = Resolved JUndefined
   \<and> uncaught (execute example_world [JStr ''releases''] (JBool True) (JBool True) JUndefined None)
       = None"
proof -
  have path: "fst (getPath example_world)
                = Inr ''/app/node_modules/@gsoc2/cli-linux-x64/bin/gsoc2-cli''"
    by (simp add: example_world_path)
  have no_headers: "spec_final_args args (config_or_default None) = args" for args
    by (simp add: spec_final_args_def present_def config_or_default_def get_prop_def)
  from execute_live[of example_world "[JStr ''releases'']" "JBool True" JUndefined None] path
  obtain pid where pid:
      "request (execute example_world [JStr ''releases''] (JBool True) (JBool True) JUndefined None)
         = Some pid"
    and io: "stdio pid = Some [Ignore, Ignore, Ignore]"
    and args: "argv pid = spec_final_args [JStr ''releases''] (config_or_default None)"
    and settled:
      "promise (execute example_world [JStr ''releases''] (JBool True) (JBool True) JUndefined None)
         = spec_live_promise ''/app/node_modules/@gsoc2/cli-linux-x64/bin/gsoc2-cli''
             (os_run example_world pid)"
    and thrown:
      "uncaught (execute example_world [JStr ''releases''] (JBool True) (JBool True) JUndefined None)
         = spec_live_uncaught ''/app/node_modules/@gsoc2/cli-linux-x64/bin/gsoc2-cli''
             (os_run example_world pid)"
    by auto
  from args have "os_run example_world pid = Exited 2 [] []"
    by (simp add: no_headers example_world_def)
  with settled thrown pid io path show ?thesis
    by (simp add: spec_live_promise_def spec_live_uncaught_def)
qed

end
